theory Spec2Isabelle
  imports Complex_Main
begin

section \<open>Data model\<close>

text \<open>
  The program \<^verbatim>\<open>emotion_gui.py\<close> works on numpy arrays of floats. A float is a finite
  number, an infinity or NaN; a finite float is taken with its real value, so rounding is
  left out and overflow is not: a library call may hand back \<open>PInf\<close> or \<open>NaN\<close>.
\<close>

datatype float = Fin real | PInf | NInf | NaN

text \<open>
  A 2-D array is a list of rows (axis 0 is the outer list), a 3-D and a 4-D array nest one
  and two levels more.
\<close>

type_synonym matrix = "float list list"
type_synonym tensor3 = "float list list list"
type_synonym tensor4 = "float list list list list"

text \<open>
  A raised Python exception, with the text that \<^verbatim>\<open>str(e)\<close> gives. \<open>Exception\<close> stands
  for the instances of the class \<^verbatim>\<open>Exception\<close>, which \<^verbatim>\<open>except Exception\<close> catches;
  \<open>BaseException\<close> for the others, such as \<^verbatim>\<open>KeyboardInterrupt\<close>, which it lets through.
\<close>

datatype exn = Exception string | BaseException string

text \<open>
  \<^verbatim>\<open>analyze_audio\<close> returns one of three kinds of strings, told apart by their prefix:
  \<^verbatim>\<open>Detected Emotion: ...\<close>, \<^verbatim>\<open>Rejected: ...\<close> and \<^verbatim>\<open>Error: ...\<close>. The constructor is the
  prefix and its argument the text after it; \<open>render\<close> gives the string itself.
\<close>

datatype result = Detected string | Rejected string | Error string

definition check_mark :: string where
  "check_mark = [CHR 0xE2, CHR 0x9C, CHR 0x85]"

definition no_entry :: string where
  "no_entry = [CHR 0xF0, CHR 0x9F, CHR 0x9A, CHR 0xAB]"

definition cross_mark :: string where
  "cross_mark = [CHR 0xE2, CHR 0x9D, CHR 0x8C]"

fun render :: "result \<Rightarrow> string" where
  "render (Detected emotion_label) = check_mark @ '' Detected Emotion: '' @ emotion_label"
| "render (Rejected reason) = no_entry @ '' Rejected: '' @ reason"
| "render (Error msg) = cross_mark @ '' Error: '' @ msg"

text \<open>
  What the program calls and does not define: the decoder and the two feature transforms
  of librosa, the three loaded Keras models, the pickled label encoder and \<^verbatim>\<open>print\<close> with
  the standard output behind it. Each may raise: \<^verbatim>\<open>print\<close> does when the stream cannot
  encode the text (\<^verbatim>\<open>UnicodeEncodeError\<close>), is closed (\<^verbatim>\<open>ValueError\<close>) or has lost its reader
  (\<^verbatim>\<open>BrokenPipeError\<close>). The six lines that one call can print differ in their text, so
  the outcome of a \<^verbatim>\<open>print\<close> is given as a function of the line.
  The file behind a path is outside the program and may change between two decodes, so
  \<open>load env k path sr\<close> is the outcome of the decode of \<open>path\<close> that comes after \<open>k\<close>
  earlier decodes.
\<close>

record env =
  load :: "nat \<Rightarrow> string \<Rightarrow> nat \<Rightarrow> exn + (float list \<times> nat)"
  mfcc :: "float list \<Rightarrow> nat \<Rightarrow> nat \<Rightarrow> exn + matrix"
  melspectrogram :: "float list \<Rightarrow> nat \<Rightarrow> nat \<Rightarrow> exn + matrix"
  gender_model :: "tensor3 \<Rightarrow> exn + matrix"
  age_model :: "tensor3 \<Rightarrow> exn + matrix"
  emotion_model :: "tensor4 \<Rightarrow> exn + matrix"
  emotion_encoder :: "nat list \<Rightarrow> exn + string list"
  print :: "string \<Rightarrow> exn + unit"

text \<open>
  The calls a run makes, in order. The log is the state threaded through the pipeline;
  the lines written by \<^verbatim>\<open>print\<close> are not recorded. Strings are UTF-8 bytes.
\<close>

datatype event =
    Extract_mfcc string
  | Extract_mel string
  | Load string
  | Gender_predict tensor3
  | Age_predict tensor3
  | Emotion_predict tensor4

type_synonym world = "event list"

fun is_load :: "event \<Rightarrow> bool" where
  "is_load (Load p) = True"
| "is_load e = False"

fun is_extract_mel :: "event \<Rightarrow> bool" where
  "is_extract_mel (Extract_mel p) = True"
| "is_extract_mel e = False"


fun is_emotion_predict :: "event \<Rightarrow> bool" where
  "is_emotion_predict (Emotion_predict x) = True"
| "is_emotion_predict e = False"

definition n_loads :: "world \<Rightarrow> nat" where
  "n_loads w = length (filter is_load w)"

section \<open>Float operations\<close>

text \<open>\<^verbatim>\<open>np.maximum(x, y)\<close> on two floats: NaN if either is NaN.\<close>

fun maximum :: "float \<Rightarrow> float \<Rightarrow> float" where
  "maximum NaN y = NaN"
| "maximum x NaN = NaN"
| "maximum PInf y = PInf"
| "maximum x PInf = PInf"
| "maximum NInf y = y"
| "maximum x NInf = x"
| "maximum (Fin a) (Fin b) = Fin (max a b)"

text \<open>\<^verbatim>\<open>x <= y\<close> on two floats: false as soon as one is NaN.\<close>

fun le :: "float \<Rightarrow> float \<Rightarrow> bool" where
  "le NaN y = False"
| "le x NaN = False"
| "le NInf y = True"
| "le x PInf = True"
| "le PInf y = False"
| "le x NInf = False"
| "le (Fin a) (Fin b) = (a \<le> b)"

text \<open>\<^verbatim>\<open>np.log10(x)\<close>\<close>

fun log10 :: "float \<Rightarrow> float" where
  "log10 (Fin x) = (if 0 < x then Fin (log 10 x) else if x = 0 then NInf else NaN)"
| "log10 PInf = PInf"
| "log10 NInf = NaN"
| "log10 NaN = NaN"

text \<open>\<^verbatim>\<open>c * x\<close> for a finite constant \<open>c\<close>.\<close>

fun scale :: "real \<Rightarrow> float \<Rightarrow> float" where
  "scale c (Fin x) = Fin (c * x)"
| "scale c PInf = (if 0 < c then PInf else if c < 0 then NInf else NaN)"
| "scale c NInf = (if 0 < c then NInf else if c < 0 then PInf else NaN)"
| "scale c NaN = NaN"

text \<open>\<^verbatim>\<open>x - y\<close>\<close>

fun subtract :: "float \<Rightarrow> float \<Rightarrow> float" where
  "subtract NaN y = NaN"
| "subtract x NaN = NaN"
| "subtract PInf PInf = NaN"
| "subtract NInf NInf = NaN"
| "subtract PInf y = PInf"
| "subtract NInf y = NInf"
| "subtract x PInf = NInf"
| "subtract x NInf = PInf"
| "subtract (Fin a) (Fin b) = Fin (a - b)"

section \<open>Array operations\<close>

text \<open>\<^verbatim>\<open>a.shape[1]\<close> of a 2-D array.\<close>

definition shape1 :: "matrix \<Rightarrow> nat" where
  "shape1 a = (case a of [] \<Rightarrow> 0 | r # _ \<Rightarrow> length r)"

text \<open>A well-formed 2-D array of shape \<open>(r, c)\<close>.\<close>

definition has_shape :: "matrix \<Rightarrow> nat \<Rightarrow> nat \<Rightarrow> bool" where
  "has_shape a r c = (map length a = replicate r c)"

text \<open>A well-formed 3-D array of shape \<open>(r, c, d)\<close>.\<close>

definition has_shape3 :: "tensor3 \<Rightarrow> nat \<Rightarrow> nat \<Rightarrow> nat \<Rightarrow> bool" where
  "has_shape3 a r c d = (map (map length) a = replicate r (replicate c d))"

text \<open>\<^verbatim>\<open>np.pad(a, pad_width=((0, 0), (0, pad_width)), mode='constant')\<close>\<close>

definition pad :: "matrix \<Rightarrow> nat \<Rightarrow> matrix" where
  "pad a pad_width = map (\<lambda>row. row @ replicate pad_width (Fin 0)) a"

text \<open>\<^verbatim>\<open>a[:, :max_len]\<close>; a negative bound counts from the end of the axis.\<close>

definition slice_to :: "matrix \<Rightarrow> int \<Rightarrow> matrix" where
  "slice_to a max_len =
     map (\<lambda>row. if max_len < 0 then take (length row - nat (- max_len)) row
                 else take (nat max_len) row) a"

text \<open>\<^verbatim>\<open>a.T\<close>\<close>

definition T :: "matrix \<Rightarrow> matrix" where
  "T a = map (\<lambda>j. map (\<lambda>row. row ! j) a) [0..<shape1 a]"

text \<open>\<^verbatim>\<open>a[..., np.newaxis]\<close>\<close>

definition newaxis :: "matrix \<Rightarrow> tensor3" where
  "newaxis a = map (map (\<lambda>x. [x])) a"

text \<open>\<^verbatim>\<open>np.expand_dims(a, axis=0)\<close>\<close>

definition expand_dims :: "'a \<Rightarrow> 'a list" where
  "expand_dims a = [a]"

text \<open>
  \<^verbatim>\<open>np.argmax\<close> of an array, flattened: the index of the first NaN if there is one, else
  the first index of the largest entry; it raises on an empty array. numpy walks the
  entries, moves to an entry \<open>x\<close> when \<^verbatim>\<open>x <= best\<close> is false, and stops at a NaN.
\<close>

fun argmax_from :: "float list \<Rightarrow> nat \<Rightarrow> nat \<Rightarrow> float \<Rightarrow> nat" where
  "argmax_from [] i best v = best"
| "argmax_from (x # xs) i best v =
     (if v = NaN then best
      else if \<not> le x v then argmax_from xs (Suc i) i x
      else argmax_from xs (Suc i) best v)"

definition argmax :: "matrix \<Rightarrow> exn + nat" where
  "argmax a =
     (case concat a of
        [] \<Rightarrow> Inl (Exception ''attempt to get argmax of an empty sequence'')
      | x # xs \<Rightarrow> Inr (argmax_from xs 1 0 x))"

text \<open>
  \<^verbatim>\<open>np.max\<close> of a list of floats: NaN if one of them is NaN; it raises on an empty array.
\<close>

definition amax :: "float list \<Rightarrow> exn + float" where
  "amax xs =
     (case xs of
        [] \<Rightarrow> Inl (Exception ''zero-size array to reduction operation maximum which has no identity'')
      | x # rest \<Rightarrow> Inr (fold maximum rest x))"

definition np_max :: "matrix \<Rightarrow> exn + float" where
  "np_max a = amax (concat a)"

text \<open>The largest entry of a 3-D array, as \<^verbatim>\<open>np.max\<close> gives it.\<close>

definition tensor_max :: "tensor3 \<Rightarrow> exn + float" where
  "tensor_max a = amax (concat (concat a))"

text \<open>
  Modelled from the spec: \<^verbatim>\<open>librosa.power_to_db(S, ref=np.max)\<close> is a library function,
  not under the repository's sources. The spec has it convert power to decibels with the
  spectrogram's own maximum as the 0 dB reference; the formula is the library's documented
  one, with its defaults \<^verbatim>\<open>amin=1e-10\<close> and \<^verbatim>\<open>top_db=80.0\<close>:
  \<^verbatim>\<open>log_spec = 10.0 * np.log10(np.maximum(amin, S))\<close>,
  \<^verbatim>\<open>log_spec -= 10.0 * np.log10(np.maximum(amin, ref_value))\<close>,
  \<^verbatim>\<open>np.maximum(log_spec, log_spec.max() - top_db)\<close>.
\<close>

definition amin :: real where
  "amin = 1 / 10 ^ 10"

definition top_db :: real where
  "top_db = 80"

definition power_to_db :: "matrix \<Rightarrow> exn + matrix" where
  "power_to_db S =
     (case np_max S of
        Inl e \<Rightarrow> Inl e
      | Inr ref_value \<Rightarrow>
          (let log_spec =
                 map (map (\<lambda>x. subtract (scale 10 (log10 (maximum (Fin amin) x)))
                                          (scale 10 (log10 (maximum (Fin amin) ref_value))))) S
           in case np_max log_spec of
                Inl e \<Rightarrow> Inl e
              | Inr m \<Rightarrow> Inr (map (map (\<lambda>v. maximum v (subtract m (Fin top_db)))) log_spec)))"

section \<open>Feature extraction\<close>

text \<open>The body of the \<^verbatim>\<open>try\<close> block of \<^verbatim>\<open>extract_mfcc_sequence\<close>.\<close>

definition extract_mfcc_try :: "env \<Rightarrow> world \<Rightarrow> string \<Rightarrow> int \<Rightarrow> (exn + matrix) \<times> world" where
  "extract_mfcc_try env w file_path max_len =
     (case load env (n_loads w) file_path 22050 of
        Inl e \<Rightarrow> (Inl e, w @ [Load file_path])
      | Inr (y, sr) \<Rightarrow>
          (case mfcc env y sr 13 of
             Inl e \<Rightarrow> (Inl e, w @ [Load file_path])
           | Inr m \<Rightarrow>
               (Inr (T (if int (shape1 m) < max_len
                        then pad m (nat (max_len - int (shape1 m)))
                        else slice_to m max_len)),
                w @ [Load file_path])))"

text \<open>
  \<^verbatim>\<open>extract_mfcc_sequence\<close>: an \<^verbatim>\<open>Exception\<close> of the body is printed and becomes
  \<^verbatim>\<open>None\<close>. The \<^verbatim>\<open>print\<close> stands in the handler, so what it raises leaves the function,
  as does what the handler does not catch.
\<close>

definition extract_mfcc_sequence ::
  "env \<Rightarrow> world \<Rightarrow> string \<Rightarrow> int \<Rightarrow> (exn + matrix option) \<times> world" where
  "extract_mfcc_sequence env w file_path max_len =
     (case extract_mfcc_try env (w @ [Extract_mfcc file_path]) file_path max_len of
        (Inr mfcc_seq, w') \<Rightarrow> (Inr (Some mfcc_seq), w')
      | (Inl (Exception e), w') \<Rightarrow>
          (case print env (''[ERROR] MFCC extraction failed: '' @ e) of
             Inl e' \<Rightarrow> (Inl e', w')
           | Inr u \<Rightarrow> (Inr None, w'))
      | (Inl (BaseException e), w') \<Rightarrow> (Inl (BaseException e), w'))"

text \<open>The body of the \<^verbatim>\<open>try\<close> block of \<^verbatim>\<open>extract_mel_features\<close>.\<close>

definition extract_mel_try :: "env \<Rightarrow> world \<Rightarrow> string \<Rightarrow> int \<Rightarrow> (exn + tensor3) \<times> world" where
  "extract_mel_try env w file_path max_len =
     (case load env (n_loads w) file_path 22050 of
        Inl e \<Rightarrow> (Inl e, w @ [Load file_path])
      | Inr (y, sr) \<Rightarrow>
          (case melspectrogram env y sr 128 of
             Inl e \<Rightarrow> (Inl e, w @ [Load file_path])
           | Inr mel \<Rightarrow>
               (case power_to_db mel of
                  Inl e \<Rightarrow> (Inl e, w @ [Load file_path])
                | Inr mel_db \<Rightarrow>
                    (Inr (newaxis (if int (shape1 mel_db) < max_len
                                   then pad mel_db (nat (max_len - int (shape1 mel_db)))
                                   else slice_to mel_db max_len)),
                     w @ [Load file_path]))))"

text \<open>\<^verbatim>\<open>extract_mel_features\<close>, with the same handler.\<close>

definition extract_mel_features ::
  "env \<Rightarrow> world \<Rightarrow> string \<Rightarrow> int \<Rightarrow> (exn + tensor3 option) \<times> world" where
  "extract_mel_features env w file_path max_len =
     (case extract_mel_try env (w @ [Extract_mel file_path]) file_path max_len of
        (Inr mel_db, w') \<Rightarrow> (Inr (Some mel_db), w')
      | (Inl (Exception e), w') \<Rightarrow>
          (case print env (''[ERROR] Mel feature extraction failed: '' @ e) of
             Inl e' \<Rightarrow> (Inl e', w')
           | Inr u \<Rightarrow> (Inr None, w'))
      | (Inl (BaseException e), w') \<Rightarrow> (Inl (BaseException e), w'))"

section \<open>The analysis pipeline\<close>

text \<open>
  \<^verbatim>\<open>analyze_audio\<close> is one function of three commented steps; each step is a definition
  here, the later step called where the source falls through to it.
\<close>

text \<open>Step 3, emotion detection: from the call of \<^verbatim>\<open>extract_mel_features\<close> to the return.\<close>

definition step3_emotion :: "env \<Rightarrow> world \<Rightarrow> string \<Rightarrow> (exn + result) \<times> world" where
  "step3_emotion env w file_path =
     (case extract_mel_features env w file_path 160 of
        (Inl e, w') \<Rightarrow> (Inl e, w')
      | (Inr None, w') \<Rightarrow> (Inr (Error ''Could not extract Mel features.''), w')
      | (Inr (Some mel_feat), w') \<Rightarrow>
          (let X_mel = expand_dims mel_feat;
               w'' = w' @ [Emotion_predict X_mel]
           in case emotion_model env X_mel of
                Inl e \<Rightarrow> (Inl e, w'')
              | Inr emotion_pred \<Rightarrow>
                  (case argmax emotion_pred of
                     Inl e \<Rightarrow> (Inl e, w'')
                   | Inr k \<Rightarrow>
                       (case emotion_encoder env [k] of
                          Inl e \<Rightarrow> (Inl e, w'')
                        | Inr [] \<Rightarrow>
                            (Inl (Exception ''index 0 is out of bounds for axis 0 with size 0''),
                             w'')
                        | Inr (emotion_label # _) \<Rightarrow>
                            (case print env (''[INFO] Emotion: '' @ emotion_label) of
                               Inl e \<Rightarrow> (Inl e, w'')
                             | Inr u \<Rightarrow> (Inr (Detected emotion_label), w''))))))"

text \<open>Step 2, age prediction: from the call of the age model on.\<close>

definition step2_age :: "env \<Rightarrow> world \<Rightarrow> string \<Rightarrow> tensor3 \<Rightarrow> (exn + result) \<times> world" where
  "step2_age env w file_path X_mfcc =
     (let w' = w @ [Age_predict X_mfcc]
      in case age_model env X_mfcc of
           Inl e \<Rightarrow> (Inl e, w')
         | Inr age_pred \<Rightarrow>
             (case argmax age_pred of
                Inl e \<Rightarrow> (Inl e, w')
              | Inr a \<Rightarrow>
                  (let is_senior = (a = 1)
                   in case print env (''[INFO] Age Group: ''
                                        @ (if is_senior then ''senior'' else ''non-senior'')) of
                        Inl e \<Rightarrow> (Inl e, w')
                      | Inr u \<Rightarrow>
                          if \<not> is_senior
                          then (Inr (Rejected ''Not a senior (under 60).''), w')
                          else step3_emotion env w' file_path)))"

text \<open>The body of the \<^verbatim>\<open>try\<close> block of \<^verbatim>\<open>analyze_audio\<close>, from step 1, gender detection.\<close>

definition analyze_audio_try :: "env \<Rightarrow> world \<Rightarrow> string \<Rightarrow> (exn + result) \<times> world" where
  "analyze_audio_try env w file_path =
     (case extract_mfcc_sequence env w file_path 160 of
        (Inl e, w') \<Rightarrow> (Inl e, w')
      | (Inr None, w') \<Rightarrow> (Inr (Error ''Could not extract MFCC sequence.''), w')
      | (Inr (Some mfcc_seq), w') \<Rightarrow>
          (let X_mfcc = expand_dims mfcc_seq;
               w'' = w' @ [Gender_predict X_mfcc]
           in case gender_model env X_mfcc of
                Inl e \<Rightarrow> (Inl e, w'')
              | Inr gender_pred \<Rightarrow>
                  (case argmax gender_pred of
                     Inl e \<Rightarrow> (Inl e, w'')
                   | Inr g \<Rightarrow>
                       (let gender = (if g = 1 then ''male'' else ''female'')
                        in case print env (''[INFO] Gender: '' @ gender) of
                             Inl e \<Rightarrow> (Inl e, w'')
                           | Inr u \<Rightarrow>
                               if gender = ''female''
                               then (Inr (Rejected ''Female voice detected.''), w'')
                               else step2_age env w'' file_path X_mfcc))))"

text \<open>
  \<^verbatim>\<open>analyze_audio\<close>: an \<^verbatim>\<open>Exception\<close> of the body is printed and becomes the error string
  of its text. The \<^verbatim>\<open>print\<close> stands in the handler, outside any \<^verbatim>\<open>try\<close>: what it raises
  leaves the function, as does what the handler does not catch.
\<close>

definition analyze_audio :: "env \<Rightarrow> world \<Rightarrow> string \<Rightarrow> (exn + result) \<times> world" where
  "analyze_audio env w file_path =
     (case analyze_audio_try env w file_path of
        (Inr r, w') \<Rightarrow> (Inr r, w')
      | (Inl (Exception e), w') \<Rightarrow>
          (case print env (''[ERROR] analyze_audio(): '' @ e) of
             Inl e' \<Rightarrow> (Inl e', w')
           | Inr u \<Rightarrow> (Inr (Error e), w'))
      | (Inl (BaseException e), w') \<Rightarrow> (Inl (BaseException e), w'))"

section \<open>Notions for the statements, and example environments\<close>

text \<open>
  Both extraction functions bring the time axis to \<open>max_len\<close> columns with the same
  \<^verbatim>\<open>if\<close>: zero columns appended when there are fewer, the first \<open>max_len\<close> kept otherwise.
\<close>

definition fix_length :: "matrix \<Rightarrow> int \<Rightarrow> matrix" where
  "fix_length a max_len =
     (if int (shape1 a) < max_len then pad a (nat (max_len - int (shape1 a)))
      else slice_to a max_len)"

text \<open>An array without overflow: every entry is a finite number.\<close>

fun is_fin :: "float \<Rightarrow> bool" where
  "is_fin (Fin x) = True"
| "is_fin x = False"

fun the_fin :: "float \<Rightarrow> real" where
  "the_fin (Fin x) = x"
| "the_fin x = 0"

definition finite_cells :: "matrix \<Rightarrow> bool" where
  "finite_cells a = list_all (list_all is_fin) a"

text \<open>The events that one call of \<^verbatim>\<open>analyze_audio\<close> adds to the log.\<close>

definition calls :: "env \<Rightarrow> world \<Rightarrow> string \<Rightarrow> event list" where
  "calls env w file_path = drop (length w) (snd (analyze_audio env w file_path))"

text \<open>
  The two gates as decisions: the model answers and the arg-max of its answer is 1.
\<close>

definition male_decided :: "env \<Rightarrow> tensor3 \<Rightarrow> bool" where
  "male_decided env X =
     (case gender_model env X of Inl e \<Rightarrow> False | Inr gender_pred \<Rightarrow> argmax gender_pred = Inr 1)"

definition senior_decided :: "env \<Rightarrow> tensor3 \<Rightarrow> bool" where
  "senior_decided env X =
     (case age_model env X of Inl e \<Rightarrow> False | Inr age_pred \<Rightarrow> argmax age_pred = Inr 1)"

text \<open>
  A gate is passed when its decision is 1 and the line that reports the decision is
  written: the call then goes on with the next step.
\<close>

definition male_passed :: "env \<Rightarrow> tensor3 \<Rightarrow> bool" where
  "male_passed env X = (male_decided env X \<and> print env ''[INFO] Gender: male'' = Inr ())"

definition senior_passed :: "env \<Rightarrow> tensor3 \<Rightarrow> bool" where
  "senior_passed env X = (senior_decided env X \<and> print env ''[INFO] Age Group: senior'' = Inr ())"

text \<open>The decibel value of the power \<open>x\<close> against the reference power \<open>M\<close>, before clipping.\<close>

definition db_rel :: "real \<Rightarrow> real \<Rightarrow> real" where
  "db_rel M x = 10 * log 10 (max amin x) - 10 * log 10 (max amin M)"

text \<open>The \<^verbatim>\<open>except\<close> clause of \<^verbatim>\<open>analyze_audio\<close>, on the outcome of its body.\<close>

definition on_except :: "env \<Rightarrow> (exn + result) \<times> world \<Rightarrow> (exn + result) \<times> world" where
  "on_except env r =
     (case r of
        (Inr res, w') \<Rightarrow> (Inr res, w')
      | (Inl (Exception e), w') \<Rightarrow>
          (case print env (''[ERROR] analyze_audio(): '' @ e) of
             Inl e' \<Rightarrow> (Inl e', w')
           | Inr u \<Rightarrow> (Inr (Error e), w'))
      | (Inl (BaseException e), w') \<Rightarrow> (Inl (BaseException e), w'))"

text \<open>
  The line that each of the three \<^verbatim>\<open>except\<close> clauses prints about the exception with the
  text \<open>e\<close> is written without an exception.
\<close>

definition handler_prints :: "env \<Rightarrow> string \<Rightarrow> bool" where
  "handler_prints env e = (print env (''[ERROR] analyze_audio(): '' @ e) = Inr ())"

definition mfcc_handler_prints :: "env \<Rightarrow> string \<Rightarrow> bool" where
  "mfcc_handler_prints env e = (print env (''[ERROR] MFCC extraction failed: '' @ e) = Inr ())"

definition mel_handler_prints :: "env \<Rightarrow> string \<Rightarrow> bool" where
  "mel_handler_prints env e = (print env (''[ERROR] Mel feature extraction failed: '' @ e) = Inr ())"

text \<open>
  A small environment to run the pipeline on: every file but \<^verbatim>\<open>missing.wav\<close> decodes to
  three samples, a frame is a sample and its power the square of the sample, both gates
  pass, the emotion model answers class 2 of a table of four labels, and the standard output
  takes every text.
\<close>

fun squared :: "float \<Rightarrow> float" where
  "squared (Fin x) = Fin (x * x)"
| "squared PInf = PInf"
| "squared NInf = PInf"
| "squared NaN = NaN"

definition demo_labels :: "string list" where
  "demo_labels = [''angry'', ''calm'', ''happy'', ''sad'']"

definition demo_env :: env where
  "demo_env =
     \<lparr> load = (\<lambda>k path sr. if path = ''missing.wav''
                            then Inl (Exception ''No such file or directory'')
                            else Inr ([Fin 1, Fin 10, Fin 100], sr)),
       mfcc = (\<lambda>y sr n_mfcc. Inr (replicate n_mfcc y)),
       melspectrogram = (\<lambda>y sr n_mels. Inr (replicate n_mels (map squared y))),
       gender_model = (\<lambda>X. Inr [[Fin (1 / 4), Fin (3 / 4)]]),
       age_model = (\<lambda>X. Inr [[Fin (1 / 10), Fin (9 / 10)]]),
       emotion_model = (\<lambda>X. Inr [[Fin 0, Fin 0, Fin 1, Fin 0]]),
       emotion_encoder = (\<lambda>ks. if list_all (\<lambda>k. k < 4) ks
                                  then Inr (map (nth demo_labels) ks)
                                  else Inl (Exception ''y contains previously unseen labels'')),
       print = (\<lambda>s. Inr ()) \<rparr>"

text \<open>
  The same environment on a recording that gets louder after its first 160 frames: 160
  samples of amplitude 1, then one of amplitude 10.
\<close>

definition crescendo_env :: env where
  "crescendo_env =
     demo_env \<lparr> load := (\<lambda>k path sr. Inr (replicate 160 (Fin 1) @ [Fin 10], sr)) \<rparr>"

text \<open>
  Variants of the small environment: a voice the gender model takes for female, one the age
  model takes for younger than 60, a file rewritten between the two decodes, and a file
  deleted between them.
\<close>

definition female_env :: env where
  "female_env = demo_env \<lparr> gender_model := (\<lambda>X. Inr [[Fin (3 / 4), Fin (1 / 4)]]) \<rparr>"

definition junior_env :: env where
  "junior_env = demo_env \<lparr> age_model := (\<lambda>X. Inr [[Fin (9 / 10), Fin (1 / 10)]]) \<rparr>"

definition rewritten_env :: env where
  "rewritten_env =
     demo_env \<lparr> load := (\<lambda>k path sr. if k = 0 then Inr ([Fin 1, Fin 10, Fin 100], sr)
                                       else Inr ([Fin 100, Fin 10, Fin 1], sr)) \<rparr>"

definition vanished_env :: env where
  "vanished_env =
     demo_env \<lparr> load := (\<lambda>k path sr. if k = 0 then Inr ([Fin 1, Fin 10, Fin 100], sr)
                                       else Inl (Exception ''No such file or directory'')) \<rparr>"

text \<open>
  The text of the \<^verbatim>\<open>UnicodeEncodeError\<close> that an ASCII stream raises for the character
  with the escape \<open>ch\<close> at position \<open>pos\<close> of a line.
\<close>

definition unicode_encode_error :: "string \<Rightarrow> string \<Rightarrow> string" where
  "unicode_encode_error ch pos =
     [CHR 0x27] @ ''ascii'' @ [CHR 0x27] @ '' codec can'' @ [CHR 0x27] @ ''t encode character ''
     @ [CHR 0x27, CHR 0x5C] @ ch @ [CHR 0x27] @ '' in position '' @ pos
     @ '': ordinal not in range(128)''"

text \<open>
  Three standard outputs that refuse a line. One that encodes ASCII only raises on a line
  with a byte above 127, with the error text \<open>err\<close> for the place of that character. A
  closed one raises \<^verbatim>\<open>ValueError\<close> on every line. One whose reader goes away after the
  first line of a call, the report of a male voice, raises \<^verbatim>\<open>BrokenPipeError\<close> on every
  later line.
\<close>

definition ascii_stdout :: "string \<Rightarrow> string \<Rightarrow> exn + unit" where
  "ascii_stdout err s = (if list_all (\<lambda>c. \<not> digit7 c) s then Inr () else Inl (Exception err))"

definition closed_stdout :: "string \<Rightarrow> exn + unit" where
  "closed_stdout s = Inl (Exception ''I/O operation on closed file.'')"

definition hangup_stdout :: "string \<Rightarrow> exn + unit" where
  "hangup_stdout s =
     (if s = ''[INFO] Gender: male'' then Inr () else Inl (Exception ''[Errno 32] Broken pipe''))"

text \<open>
  An ASCII standard output and a label table whose class 2 is the German word for happy,
  written with o-umlaut (two bytes in UTF-8): the line that prints the label has the
  umlaut at position 18.
\<close>

definition froehlich :: string where
  "froehlich = ''fr'' @ [CHR 0xC3, CHR 0xB6] @ ''hlich''"

definition umlaut_env :: env where
  "umlaut_env =
     demo_env \<lparr> emotion_encoder := (\<lambda>ks. if list_all (\<lambda>k. k < 4) ks
                                           then Inr (map (nth [''angry'', ''calm'', froehlich, ''sad'']) ks)
                                           else Inl (Exception ''y contains previously unseen labels'')),
                print := ascii_stdout (unicode_encode_error ''xf6'' ''18'') \<rparr>"

text \<open>
  An ASCII standard output and a gender model whose \<^verbatim>\<open>predict\<close> raises an exception that
  names a layer with e-acute in its name: the line that the handler of \<^verbatim>\<open>analyze_audio\<close>
  prints has the accent at position 42.
\<close>

definition layer_error :: string where
  "layer_error = ''Input 0 of layer '' @ [CHR 0xC3, CHR 0xA9] @ ''motion is incompatible with the layer''"

definition unprintable_env :: env where
  "unprintable_env =
     demo_env \<lparr> gender_model := (\<lambda>X. Inl (Exception layer_error)),
                print := ascii_stdout (unicode_encode_error ''xe9'' ''42'') \<rparr>"

text \<open>
  The small environment and its female variant with a closed standard output, and the small
  environment and its junior variant with a standard output that loses its reader after
  the first line.
\<close>

definition closed_env :: env where
  "closed_env = demo_env \<lparr> print := closed_stdout \<rparr>"

definition closed_female_env :: env where
  "closed_female_env = female_env \<lparr> print := closed_stdout \<rparr>"

definition hangup_env :: env where
  "hangup_env = demo_env \<lparr> print := hangup_stdout \<rparr>"

definition hangup_junior_env :: env where
  "hangup_junior_env = junior_env \<lparr> print := hangup_stdout \<rparr>"

text \<open>A gender model that is interrupted from the keyboard while it predicts.\<close>

definition interrupted_env :: env where
  "interrupted_env = demo_env \<lparr> gender_model := (\<lambda>X. Inl (BaseException [])) \<rparr>"

text \<open>The features of the three samples \<open>1, 10, 100\<close>, and of \<open>100, 10, 1\<close>.\<close>

definition demo_mfcc_seq :: matrix where
  "demo_mfcc_seq = T (pad (replicate 13 [Fin 1, Fin 10, Fin 100]) 157)"

definition demo_mel_feat :: tensor3 where
  "demo_mel_feat = newaxis (pad (replicate 128 [Fin (- 40), Fin (- 20), Fin 0]) 157)"


section \<open>Facts about the array operations\<close>

lemma n_loads_simps:
  "n_loads [] = 0"
  "n_loads (w @ [Load p]) = Suc (n_loads w)"
  "n_loads (w @ [Extract_mfcc p]) = n_loads w"
  "n_loads (w @ [Extract_mel p]) = n_loads w"
  "n_loads (w @ [Gender_predict X]) = n_loads w"
  "n_loads (w @ [Age_predict X]) = n_loads w"
  "n_loads (w @ [Emotion_predict X']) = n_loads w"
  by (simp_all add: n_loads_def)

lemma has_shape_length: "has_shape a r c \<Longrightarrow> length a = r"
  unfolding has_shape_def by (metis length_map length_replicate)

lemma has_shape_row: "has_shape a r c \<Longrightarrow> i < r \<Longrightarrow> length (a ! i) = c"
  unfolding has_shape_def by (metis length_map length_replicate nth_map nth_replicate)

lemma has_shape_shape1: "has_shape a r c \<Longrightarrow> 0 < r \<Longrightarrow> shape1 a = c"
  using has_shape_row[of a r c 0] has_shape_length[of a r c]
  by (cases a) (auto simp: shape1_def)

lemma has_shapeI: "length a = r \<Longrightarrow> (\<And>i. i < r \<Longrightarrow> length (a ! i) = c) \<Longrightarrow> has_shape a r c"
  unfolding has_shape_def by (simp add: list_eq_iff_nth_eq)

lemma fix_length_shape:
  assumes "has_shape a r c" "0 < r"
  shows "has_shape (fix_length a 160) r 160"
proof (rule has_shapeI)
  show "length (fix_length a 160) = r"
    using assms by (simp add: fix_length_def pad_def slice_to_def has_shape_length)
next
  fix i assume "i < r"
  then show "length (fix_length a 160 ! i) = 160"
    using assms has_shape_row[OF assms(1), of i] has_shape_length[OF assms(1)]
    by (auto simp: fix_length_def pad_def slice_to_def has_shape_shape1)
qed

lemma fix_length_nth:
  assumes "has_shape a r c" "0 < r" "i < r" "j < 160"
  shows "fix_length a 160 ! i ! j = (if j < c then a ! i ! j else Fin 0)"
  using assms has_shape_row[OF assms(1), of i] has_shape_length[OF assms(1)]
  by (auto simp: fix_length_def pad_def slice_to_def has_shape_shape1 nth_append)

lemma T_shape:
  assumes "has_shape a r c" "0 < r"
  shows "has_shape (T a) c r"
  using assms by (intro has_shapeI) (simp_all add: T_def has_shape_shape1 has_shape_length)

lemma T_nth:
  assumes "has_shape a r c" "0 < r" "i < r" "j < c"
  shows "T a ! j ! i = a ! i ! j"
  using assms by (simp add: T_def has_shape_shape1 has_shape_length)

lemma newaxis_shape: "has_shape a r c \<Longrightarrow> has_shape3 (newaxis a) r c 1"
  unfolding has_shape_def has_shape3_def newaxis_def
  by (simp add: list_eq_iff_nth_eq)

lemma newaxis_nth: "i < length a \<Longrightarrow> j < length (a ! i) \<Longrightarrow> newaxis a ! i ! j = [a ! i ! j]"
  by (simp add: newaxis_def)

lemma concat_newaxis: "concat (concat (newaxis a)) = concat a"
proof -
  have "concat (map (\<lambda>x. [x]) xs) = xs" for xs :: "float list"
    by (induction xs) auto
  then show ?thesis
    by (induction a) (auto simp: newaxis_def)
qed

lemma tensor_max_newaxis: "tensor_max (newaxis a) = np_max a"
  by (simp add: tensor_max_def np_max_def concat_newaxis)

lemma in_concat_nth:
  "x \<in> set (concat a) \<longleftrightarrow> (\<exists>i<length a. \<exists>j<length (a ! i). a ! i ! j = x)"
proof
  assume "x \<in> set (concat a)"
  then obtain r where "r \<in> set a" "x \<in> set r" by auto
  then obtain i j where "i < length a" "a ! i = r" "j < length r" "r ! j = x"
    by (metis in_set_conv_nth)
  then show "\<exists>i<length a. \<exists>j<length (a ! i). a ! i ! j = x" by auto
next
  assume "\<exists>i<length a. \<exists>j<length (a ! i). a ! i ! j = x"
  then obtain i j where "i < length a" "j < length (a ! i)" "a ! i ! j = x" by blast
  then have "a ! i \<in> set a" "x \<in> set (a ! i)" by auto
  then show "x \<in> set (concat a)" by auto
qed

lemma nth_in_concat: "i < length a \<Longrightarrow> j < length (a ! i) \<Longrightarrow> a ! i ! j \<in> set (concat a)"
  unfolding in_concat_nth by blast

lemma Max_map_eq:
  assumes "xs \<noteq> []" "m \<in> set xs" "f m = c" "\<And>x. x \<in> set xs \<Longrightarrow> f x \<le> c"
  shows "Max (set (map f xs)) = (c::real)"
proof (rule Max_eqI)
  show "finite (set (map f xs))" by simp
  show "\<And>y. y \<in> set (map f xs) \<Longrightarrow> y \<le> c" using assms(4) by auto
  show "c \<in> set (map f xs)" using assms(2,3) by force
qed

section \<open>Facts about floats without overflow\<close>

lemma is_fin_iff: "is_fin x \<longleftrightarrow> (\<exists>r. x = Fin r)"
  by (cases x) auto

lemma Fin_the_fin: "is_fin x \<Longrightarrow> Fin (the_fin x) = x"
  by (cases x) auto

lemma Fin_the_fin_map: "list_all is_fin xs \<Longrightarrow> map (Fin \<circ> the_fin) xs = xs"
  by (induction xs) (simp_all add: Fin_the_fin)

lemma finite_cells_map: "finite_cells a \<Longrightarrow> a = map (map Fin) (map (map the_fin) a)"
  unfolding finite_cells_def by (induction a) (simp_all add: Fin_the_fin_map)

lemma finite_cells_Fin: "finite_cells (map (map Fin) R)"
  by (simp add: finite_cells_def list_all_iff)

lemma fold_maximum_Fin: "fold maximum (map Fin xs) (Fin x) = Fin (fold max xs x)"
  by (induction xs arbitrary: x) (simp_all add: max.commute)

lemma amax_Fin:
  assumes "xs \<noteq> []"
  shows "amax (map Fin xs) = Inr (Fin (Max (set xs)))"
proof (cases xs)
  case Nil
  with assms show ?thesis by simp
next
  case (Cons x rest)
  then show ?thesis
    by (simp add: amax_def fold_maximum_Fin Max.set_eq_fold[symmetric])
qed

lemma np_max_Fin:
  assumes "concat R \<noteq> []"
  shows "np_max (map (map Fin) R) = Inr (Fin (Max (set (concat R))))"
  using amax_Fin[OF assms] by (simp add: np_max_def map_concat)

section \<open>Facts about the decibel conversion\<close>

lemma db_le:
  assumes "x \<le> M"
  shows "10 * log 10 (max amin x) - 10 * log 10 (max amin M) \<le> 0"
proof -
  have "0 < max amin x" by (simp add: amin_def max_def)
  moreover have "max amin x \<le> max amin M" using assms by (simp add: max_def)
  ultimately have "log 10 (max amin x) \<le> log 10 (max amin M)"
    by (simp add: log_le_cancel_iff)
  then show ?thesis by simp
qed

lemma db_rel_le: "x \<le> M \<Longrightarrow> db_rel M x \<le> 0"
  unfolding db_rel_def by (rule db_le)

lemma db_rel_self: "db_rel M M = 0"
  by (simp add: db_rel_def)

lemma db_cell_Fin:
  "subtract (scale 10 (log10 (maximum (Fin amin) (Fin x))))
            (scale 10 (log10 (maximum (Fin amin) (Fin M)))) = Fin (db_rel M x)"
proof -
  have "0 < max amin x" "0 < max amin M" by (simp_all add: amin_def max_def)
  then show ?thesis by (simp add: db_rel_def)
qed

lemma Max_in_concat: "concat R \<noteq> [] \<Longrightarrow> Max (set (concat R)) \<in> set (concat (R :: real list list))"
  by (intro Max_in) auto

lemma Max_ge_concat: "x \<in> set (concat R) \<Longrightarrow> x \<le> Max (set (concat (R :: real list list)))"
  by (intro Max_ge) auto

lemma Max_log_spec:
  assumes "concat R \<noteq> []"
  shows "Max (set (concat (map (map (db_rel (Max (set (concat R))))) R))) = 0"
proof -
  have "Max (set (map (db_rel (Max (set (concat R)))) (concat R))) = 0"
    by (rule Max_map_eq[OF assms Max_in_concat[OF assms] db_rel_self])
       (simp add: db_rel_le Max_ge_concat)
  then show ?thesis by (simp add: map_concat)
qed

lemma power_to_db_Fin:
  assumes "concat R \<noteq> []"
  shows "power_to_db (map (map Fin) R) =
           Inr (map (map (\<lambda>x. Fin (max (db_rel (Max (set (concat R))) x) (- 80)))) R)"
proof -
  let ?M = "Max (set (concat R))"
  let ?L = "map (map (db_rel ?M)) R"
  have ne: "concat ?L \<noteq> []" using assms by (simp add: map_concat[symmetric])
  have log_spec:
    "map (map (\<lambda>x. subtract (scale 10 (log10 (maximum (Fin amin) x)))
                             (scale 10 (log10 (maximum (Fin amin) (Fin ?M))))))
       (map (map Fin) R) = map (map Fin) ?L"
    by (simp only: map_map comp_def db_cell_Fin)
  have mx: "np_max (map (map Fin) ?L) = Inr (Fin 0)"
    using np_max_Fin[OF ne] Max_log_spec[OF assms] by simp
  show ?thesis
    apply (simp only: power_to_db_def np_max_Fin[OF assms] sum.case Let_def log_spec mx)
    apply (simp add: top_db_def comp_def)
    done
qed

lemma power_to_db_shape:
  assumes "power_to_db S = Inr D" "has_shape S r c"
  shows "has_shape D r c"
  using assms
  by (auto simp: power_to_db_def has_shape_def Let_def comp_def split: sum.splits)

lemma np_max_nonempty: "np_max S = Inr m \<Longrightarrow> concat S \<noteq> []"
  by (cases "concat S") (simp_all add: np_max_def amax_def)

lemma power_to_db_nonempty:
  assumes "power_to_db S = Inr D"
  shows "concat S \<noteq> []"
  using assms np_max_nonempty by (auto simp: power_to_db_def split: sum.splits)

lemma power_to_db_le:
  assumes "finite_cells S" "power_to_db S = Inr D" "v \<in> set (concat D)"
  shows "\<exists>r. v = Fin r \<and> r \<le> 0"
proof -
  define R where "R = map (map the_fin) S"
  have S: "S = map (map Fin) R" unfolding R_def by (rule finite_cells_map[OF assms(1)])
  have ne: "concat R \<noteq> []" using power_to_db_nonempty[OF assms(2)] by (simp add: S map_concat[symmetric])
  from assms(2) have "D = map (map (\<lambda>x. Fin (max (db_rel (Max (set (concat R))) x) (- 80)))) R"
    unfolding S power_to_db_Fin[OF ne] by simp
  then have "concat D = map (\<lambda>x. Fin (max (db_rel (Max (set (concat R))) x) (- 80))) (concat R)"
    by (simp add: map_concat)
  with assms(3) obtain x where "x \<in> set (concat R)"
    and "v = Fin (max (db_rel (Max (set (concat R))) x) (- 80))" by auto
  then show ?thesis using db_rel_le[OF Max_ge_concat, of x R] by simp
qed

lemma power_to_db_at_max:
  assumes "finite_cells S" "power_to_db S = Inr D" "has_shape S r c" "i < r" "j < c"
    "np_max S = Inr (S ! i ! j)"
  shows "D ! i ! j = Fin 0"
proof -
  define R where "R = map (map the_fin) S"
  have S: "S = map (map Fin) R" unfolding R_def by (rule finite_cells_map[OF assms(1)])
  have ne: "concat R \<noteq> []" using power_to_db_nonempty[OF assms(2)] by (simp add: S map_concat[symmetric])
  have len: "length R = r" "length (R ! i) = c"
    using has_shape_length[OF assms(3)] has_shape_row[OF assms(3,4)] assms(4)
    by (simp_all add: R_def)
  have cell: "S ! i ! j = Fin (R ! i ! j)"
    using len assms(4,5) by (subst S) simp
  from assms(6) have "R ! i ! j = Max (set (concat R))"
    unfolding cell by (subst (asm) S) (simp add: np_max_Fin[OF ne])
  moreover from assms(2) have "D = map (map (\<lambda>x. Fin (max (db_rel (Max (set (concat R))) x) (- 80)))) R"
    unfolding S power_to_db_Fin[OF ne] by simp
  ultimately show ?thesis
    using len assms(4,5) by (simp add: db_rel_self)
qed

lemma np_max_attained:
  assumes "finite_cells S" "concat S \<noteq> []"
  shows "\<exists>m. np_max S = Inr m \<and> m \<in> set (concat S)"
proof -
  define R where "R = map (map the_fin) S"
  have S: "S = map (map Fin) R" unfolding R_def by (rule finite_cells_map[OF assms(1)])
  have ne: "concat R \<noteq> []" using assms(2) by (simp add: S map_concat[symmetric])
  have "Fin (Max (set (concat R))) \<in> set (concat S)"
    using Max_in_concat[OF ne] by (subst S) (simp add: map_concat[symmetric])
  moreover have "np_max S = Inr (Fin (Max (set (concat R))))"
    by (subst S) (rule np_max_Fin[OF ne])
  ultimately show ?thesis by blast
qed

lemma amax_eqI:
  assumes "Fin c \<in> set xs" "\<And>x. x \<in> set xs \<Longrightarrow> \<exists>r. x = Fin r \<and> r \<le> c"
  shows "amax xs = Inr (Fin c)"
proof -
  have "list_all is_fin xs"
    using assms(2) by (fastforce simp: list_all_iff)
  then have "xs = map Fin (map the_fin xs)"
    by (simp add: Fin_the_fin_map)
  moreover have "map the_fin xs \<noteq> []" using assms(1) by auto
  moreover have "Max (set (map the_fin xs)) = c"
  proof (rule Max_eqI)
    show "finite (set (map the_fin xs))" by simp
    show "y \<le> c" if "y \<in> set (map the_fin xs)" for y
      using that assms(2) by fastforce
    show "c \<in> set (map the_fin xs)" using assms(1) by force
  qed
  ultimately show ?thesis using amax_Fin[of "map the_fin xs"] by simp
qed

lemma log10_100: "log 10 100 = 2"
  using log_nat_power[of 10 10 2] by simp

lemma log10_10000: "log 10 10000 = 4"
  using log_nat_power[of 10 10 4] by simp

section \<open>Facts about the feature extraction\<close>

lemma extract_mfcc_sequence_Some:
  assumes "extract_mfcc_sequence env w file_path max_len = (Inr (Some out), w')"
  shows "\<exists>y sr m. load env (n_loads w) file_path 22050 = Inr (y, sr)
           \<and> mfcc env y sr 13 = Inr m \<and> out = T (fix_length m max_len)
           \<and> w' = w @ [Extract_mfcc file_path, Load file_path]"
  using assms
  by (auto simp: extract_mfcc_sequence_def extract_mfcc_try_def fix_length_def n_loads_simps
           split: sum.splits prod.splits exn.splits)

lemma extract_mfcc_sequence_ok:
  assumes "load env (n_loads w) file_path 22050 = Inr (y, sr)" "mfcc env y sr 13 = Inr m"
  shows "extract_mfcc_sequence env w file_path max_len =
           (Inr (Some (T (fix_length m max_len))), w @ [Extract_mfcc file_path, Load file_path])"
  using assms
  by (simp add: extract_mfcc_sequence_def extract_mfcc_try_def fix_length_def n_loads_simps)

lemma extract_mel_features_Some:
  assumes "extract_mel_features env w file_path max_len = (Inr (Some out), w')"
  shows "\<exists>y sr mel mel_db. load env (n_loads w) file_path 22050 = Inr (y, sr)
           \<and> melspectrogram env y sr 128 = Inr mel \<and> power_to_db mel = Inr mel_db
           \<and> out = newaxis (fix_length mel_db max_len)
           \<and> w' = w @ [Extract_mel file_path, Load file_path]"
  using assms
  by (auto simp: extract_mel_features_def extract_mel_try_def fix_length_def n_loads_simps
           split: sum.splits prod.splits exn.splits)

lemma extract_mel_features_ok:
  assumes "load env (n_loads w) file_path 22050 = Inr (y, sr)"
    "melspectrogram env y sr 128 = Inr mel" "power_to_db mel = Inr mel_db"
  shows "extract_mel_features env w file_path max_len =
           (Inr (Some (newaxis (fix_length mel_db max_len))),
            w @ [Extract_mel file_path, Load file_path])"
  using assms
  by (simp add: extract_mel_features_def extract_mel_try_def fix_length_def n_loads_simps)

lemma demo_env_simps:
  "load demo_env k ''a.wav'' sr = Inr ([Fin 1, Fin 10, Fin 100], sr)"
  "load demo_env k ''missing.wav'' sr = Inl (Exception ''No such file or directory'')"
  "mfcc demo_env y sr n = Inr (replicate n y)"
  "melspectrogram demo_env y sr n = Inr (replicate n (map squared y))"
  "gender_model demo_env X = Inr [[Fin (1 / 4), Fin (3 / 4)]]"
  "age_model demo_env X = Inr [[Fin (1 / 10), Fin (9 / 10)]]"
  "emotion_model demo_env X' = Inr [[Fin 0, Fin 0, Fin 1, Fin 0]]"
  "emotion_encoder demo_env [2] = Inr [''happy'']"
  "print demo_env s = Inr ()"
  by (simp_all add: demo_env_def demo_labels_def)

lemma demo_mfcc_contract:
  "\<forall>y sr m. mfcc demo_env y sr 13 = Inr m \<longrightarrow> has_shape m 13 (shape1 m)"
  by (auto simp: demo_env_simps has_shape_def shape1_def numeral_eq_Suc)

lemma demo_mel_contract:
  "\<forall>y sr m. melspectrogram demo_env y sr 128 = Inr m \<longrightarrow> has_shape m 128 (shape1 m)"
  by (auto simp: demo_env_simps has_shape_def shape1_def numeral_eq_Suc)

lemma demo_power_to_db:
  "power_to_db (replicate 128 [Fin 1, Fin 100, Fin 10000]) =
     Inr (replicate 128 [Fin (- 40), Fin (- 20), Fin 0])"
proof -
  let ?R = "replicate 128 [1, 100, 10000 :: real]"
  have ne: "concat ?R \<noteq> []" by simp
  have mx: "Max (set (concat ?R)) = 10000" by simp
  have eq: "replicate 128 [Fin 1, Fin 100, Fin 10000] = map (map Fin) ?R" by simp
  show ?thesis
    unfolding eq power_to_db_Fin[OF ne] mx
    by (simp add: db_rel_def amin_def log10_100 log10_10000)
qed

lemma demo_extract_mel:
  "extract_mel_features demo_env w ''a.wav'' 160 =
     (Inr (Some (newaxis (pad (replicate 128 [Fin (- 40), Fin (- 20), Fin 0]) 157))),
      w @ [Extract_mel ''a.wav'', Load ''a.wav''])"
proof -
  have sh1: "shape1 (replicate 128 [Fin (- 40), Fin (- 20), Fin 0]) = 3"
    by (simp add: shape1_def numeral_eq_Suc)
  show ?thesis
    using extract_mel_features_ok[of demo_env w "''a.wav''" "[Fin 1, Fin 10, Fin 100]" 22050
        "replicate 128 [Fin 1, Fin 100, Fin 10000]"
        "replicate 128 [Fin (- 40), Fin (- 20), Fin 0]" 160]
    by (simp add: demo_env_simps demo_power_to_db fix_length_def sh1)
qed

lemma crescendo_env_simps:
  "load crescendo_env k path sr = Inr (replicate 160 (Fin 1) @ [Fin 10], sr)"
  "melspectrogram crescendo_env y sr n = Inr (replicate n (map squared y))"
  by (simp_all add: crescendo_env_def demo_env_def)

lemma crescendo_power_to_db:
  "power_to_db (replicate 128 (replicate 160 (Fin 1) @ [Fin 100])) =
     Inr (replicate 128 (replicate 160 (Fin (- 20)) @ [Fin 0]))"
proof -
  let ?R = "replicate 128 (replicate 160 1 @ [100 :: real])"
  have ne: "concat ?R \<noteq> []" by simp
  have "set (concat ?R) = {1, 100}" by auto
  then have mx: "Max (set (concat ?R)) = 100" by simp
  have eq: "replicate 128 (replicate 160 (Fin 1) @ [Fin 100]) = map (map Fin) ?R" by simp
  show ?thesis
    unfolding eq power_to_db_Fin[OF ne] mx
    by (simp add: db_rel_def amin_def log10_100)
qed

lemma power_to_db_overflow: "power_to_db [[PInf, Fin 1]] = Inr [[NaN, NaN]]"
  by (simp add: power_to_db_def np_max_def amax_def amin_def)

section \<open>Facts about the pipeline\<close>

lemma on_except_simps:
  "on_except env (Inr res, w') = (Inr res, w')"
  "on_except env (Inl (BaseException e), w') = (Inl (BaseException e), w')"
  "handler_prints env e \<Longrightarrow> on_except env (Inl (Exception e), w') = (Inr (Error e), w')"
  "print env (''[ERROR] analyze_audio(): '' @ e) = Inl x \<Longrightarrow>
     on_except env (Inl (Exception e), w') = (Inl x, w')"
  by (simp_all add: on_except_def handler_prints_def)

lemma on_except_snd: "snd (on_except env r) = snd r"
  by (cases r) (auto simp: on_except_def split: sum.splits exn.splits)


lemma analyze_audio_on_except: "analyze_audio env w p = on_except env (analyze_audio_try env w p)"
  by (simp add: analyze_audio_def on_except_def)

lemma calls_eq: "snd (analyze_audio env w p) = w @ tr \<Longrightarrow> calls env w p = tr"
  by (simp add: calls_def)

lemma fst_eqD: "fst r = x \<Longrightarrow> \<exists>w'. r = (x, w')"
  by (cases r) auto

lemma extract_mfcc_sequence_snd:
  "snd (extract_mfcc_sequence env w p n) = w @ [Extract_mfcc p, Load p]"
  by (simp add: extract_mfcc_sequence_def extract_mfcc_try_def
           split: sum.splits prod.splits exn.splits)

lemma extract_mel_features_snd:
  "snd (extract_mel_features env w p n) = w @ [Extract_mel p, Load p]"
  by (simp add: extract_mel_features_def extract_mel_try_def
           split: sum.splits prod.splits exn.splits)



lemma extract_mfcc_sequence_None:
  "fst (extract_mfcc_sequence env w p n) = Inr None \<longleftrightarrow>
     (\<exists>e. mfcc_handler_prints env e \<and>
        (load env (n_loads w) p 22050 = Inl (Exception e) \<or>
         (\<exists>y sr. load env (n_loads w) p 22050 = Inr (y, sr) \<and> mfcc env y sr 13 = Inl (Exception e))))"
  by (auto simp: extract_mfcc_sequence_def extract_mfcc_try_def n_loads_simps mfcc_handler_prints_def
           split: sum.splits prod.splits exn.splits)

lemma extract_mel_features_None:
  "fst (extract_mel_features env w p n) = Inr None \<longleftrightarrow>
     (\<exists>e. mel_handler_prints env e \<and>
        (load env (n_loads w) p 22050 = Inl (Exception e) \<or>
         (\<exists>y sr. load env (n_loads w) p 22050 = Inr (y, sr) \<and>
            melspectrogram env y sr 128 = Inl (Exception e)) \<or>
         (\<exists>y sr mel. load env (n_loads w) p 22050 = Inr (y, sr) \<and>
            melspectrogram env y sr 128 = Inr mel \<and> power_to_db mel = Inl (Exception e))))"
  by (auto simp: extract_mel_features_def extract_mel_try_def n_loads_simps mel_handler_prints_def
           split: sum.splits prod.splits exn.splits)



lemma step3_None:
  assumes "extract_mel_features env w p 160 = (Inr None, w')"
  shows "step3_emotion env w p = (Inr (Error ''Could not extract Mel features.''), w')"
  using assms by (simp add: step3_emotion_def)

lemma step3_raise:
  assumes "extract_mel_features env w p 160 = (Inl e, w')"
  shows "step3_emotion env w p = (Inl e, w')"
  using assms by (simp add: step3_emotion_def)

lemma step3_Some:
  assumes "extract_mel_features env w p 160 = (Inr (Some mel_feat), w')"
  shows "step3_emotion env w p =
    (case emotion_model env (expand_dims mel_feat) of
       Inl e \<Rightarrow> (Inl e, w' @ [Emotion_predict (expand_dims mel_feat)])
     | Inr emotion_pred \<Rightarrow>
        (case argmax emotion_pred of
           Inl e \<Rightarrow> (Inl e, w' @ [Emotion_predict (expand_dims mel_feat)])
         | Inr k \<Rightarrow>
            (case emotion_encoder env [k] of
               Inl e \<Rightarrow> (Inl e, w' @ [Emotion_predict (expand_dims mel_feat)])
             | Inr [] \<Rightarrow> (Inl (Exception ''index 0 is out of bounds for axis 0 with size 0''),
                           w' @ [Emotion_predict (expand_dims mel_feat)])
             | Inr (emotion_label # _) \<Rightarrow>
                 (case print env (''[INFO] Emotion: '' @ emotion_label) of
                    Inl e \<Rightarrow> (Inl e, w' @ [Emotion_predict (expand_dims mel_feat)])
                  | Inr u \<Rightarrow> (Inr (Detected emotion_label),
                               w' @ [Emotion_predict (expand_dims mel_feat)])))))"
  using assms by (simp add: step3_emotion_def Let_def)

lemma step3_trace:
  "\<exists>tr. snd (step3_emotion env w p) = w @ Extract_mel p # Load p # tr \<and>
        (tr = [] \<or> (\<exists>mel_feat. fst (extract_mel_features env w p 160) = Inr (Some mel_feat) \<and>
                       tr = [Emotion_predict (expand_dims mel_feat)]))"
proof (cases "extract_mel_features env w p 160")
  case (Pair r w')
  have w': "w' = w @ [Extract_mel p, Load p]"
    using extract_mel_features_snd[of env w p 160] Pair by simp
  show ?thesis
  proof (cases r)
    case (Inl e)
    then show ?thesis using Pair w' by (simp add: step3_raise)
  next
    case (Inr opt)
    show ?thesis
    proof (cases opt)
      case None
      then show ?thesis using Pair Inr w' by (simp add: step3_None)
    next
      case (Some mel_feat)
      then show ?thesis using Pair Inr w'
        by (simp add: step3_Some split: sum.splits list.splits)
    qed
  qed
qed


lemma step2_age_eq:
  "step2_age env w p X =
     (case age_model env X of
        Inl e \<Rightarrow> (Inl e, w @ [Age_predict X])
      | Inr age_pred \<Rightarrow>
         (case argmax age_pred of
            Inl e \<Rightarrow> (Inl e, w @ [Age_predict X])
          | Inr a \<Rightarrow>
             (case print env (''[INFO] Age Group: '' @ (if a = 1 then ''senior'' else ''non-senior'')) of
                Inl e \<Rightarrow> (Inl e, w @ [Age_predict X])
              | Inr u \<Rightarrow>
                 if a \<noteq> 1 then (Inr (Rejected ''Not a senior (under 60).''), w @ [Age_predict X])
                 else step3_emotion env (w @ [Age_predict X]) p)))"
  by (simp add: step2_age_def Let_def split: sum.splits)

lemma step2_trace:
  "\<exists>tr. snd (step2_age env w p X) = w @ Age_predict X # tr \<and>
     (tr = [] \<or>
      (\<exists>age_pred. age_model env X = Inr age_pred \<and> argmax age_pred = Inr 1) \<and>
      (\<exists>tr'. tr = Extract_mel p # Load p # tr' \<and>
         (tr' = [] \<or>
          (\<exists>mel_feat. fst (extract_mel_features env (w @ [Age_predict X]) p 160) = Inr (Some mel_feat) \<and>
             tr' = [Emotion_predict (expand_dims mel_feat)]))))"
proof (cases "\<exists>age_pred. age_model env X = Inr age_pred \<and> argmax age_pred = Inr 1")
  case True
  then obtain age_pred where ap: "age_model env X = Inr age_pred" and am: "argmax age_pred = Inr 1"
    by blast
  show ?thesis
  proof (cases "print env ''[INFO] Age Group: senior''")
    case (Inl e)
    then have "snd (step2_age env w p X) = w @ [Age_predict X]"
      by (simp add: step2_age_eq ap am)
    then show ?thesis by simp
  next
    case (Inr u)
    then have "step2_age env w p X = step3_emotion env (w @ [Age_predict X]) p"
      by (simp add: step2_age_eq ap am)
    with step3_trace[of env "w @ [Age_predict X]" p] True show ?thesis
      by auto
  qed
next
  case False
  then have "snd (step2_age env w p X) = w @ [Age_predict X]"
    by (auto simp: step2_age_eq split: sum.splits)
  then show ?thesis by simp
qed

lemma analyze_audio_try_None:
  assumes "extract_mfcc_sequence env w p 160 = (Inr None, w1)"
  shows "analyze_audio_try env w p = (Inr (Error ''Could not extract MFCC sequence.''), w1)"
  using assms by (simp add: analyze_audio_try_def)

lemma analyze_audio_try_raise:
  assumes "extract_mfcc_sequence env w p 160 = (Inl e, w1)"
  shows "analyze_audio_try env w p = (Inl e, w1)"
  using assms by (simp add: analyze_audio_try_def)

lemma analyze_audio_try_Some:
  assumes "extract_mfcc_sequence env w p 160 = (Inr (Some mfcc_seq), w1)"
  shows "analyze_audio_try env w p =
     (case gender_model env (expand_dims mfcc_seq) of
        Inl e \<Rightarrow> (Inl e, w1 @ [Gender_predict (expand_dims mfcc_seq)])
      | Inr gender_pred \<Rightarrow>
         (case argmax gender_pred of
            Inl e \<Rightarrow> (Inl e, w1 @ [Gender_predict (expand_dims mfcc_seq)])
          | Inr g \<Rightarrow>
             (case print env (''[INFO] Gender: '' @ (if g = 1 then ''male'' else ''female'')) of
                Inl e \<Rightarrow> (Inl e, w1 @ [Gender_predict (expand_dims mfcc_seq)])
              | Inr u \<Rightarrow>
                 if g \<noteq> 1
                 then (Inr (Rejected ''Female voice detected.''),
                       w1 @ [Gender_predict (expand_dims mfcc_seq)])
                 else step2_age env (w1 @ [Gender_predict (expand_dims mfcc_seq)]) p
                        (expand_dims mfcc_seq))))"
  using assms by (simp add: analyze_audio_try_def Let_def split: sum.splits)

lemma analyze_audio_rejected_female:
  assumes "extract_mfcc_sequence env w p 160 = (Inr (Some mfcc_seq), w1)"
      and "gender_model env (expand_dims mfcc_seq) = Inr gender_pred"
      and "argmax gender_pred = Inr g" "g \<noteq> 1"
      and "print env ''[INFO] Gender: female'' = Inr ()"
  shows "analyze_audio env w p =
           (Inr (Rejected ''Female voice detected.''), w1 @ [Gender_predict (expand_dims mfcc_seq)])"
  using assms by (simp add: analyze_audio_on_except analyze_audio_try_Some on_except_simps)

lemma analyze_audio_male:
  assumes "extract_mfcc_sequence env w p 160 = (Inr (Some mfcc_seq), w1)"
      and "gender_model env (expand_dims mfcc_seq) = Inr gender_pred"
      and "argmax gender_pred = Inr 1"
      and "print env ''[INFO] Gender: male'' = Inr ()"
  shows "analyze_audio_try env w p =
           step2_age env (w1 @ [Gender_predict (expand_dims mfcc_seq)]) p (expand_dims mfcc_seq)"
  using assms by (simp add: analyze_audio_try_Some)

lemma analyze_audio_senior:
  assumes "extract_mfcc_sequence env w p 160 = (Inr (Some mfcc_seq), w1)"
      and "gender_model env (expand_dims mfcc_seq) = Inr gender_pred"
      and "argmax gender_pred = Inr 1"
      and "print env ''[INFO] Gender: male'' = Inr ()"
      and "age_model env (expand_dims mfcc_seq) = Inr age_pred"
      and "argmax age_pred = Inr 1"
      and "print env ''[INFO] Age Group: senior'' = Inr ()"
  shows "analyze_audio_try env w p =
           step3_emotion env
             (w1 @ [Gender_predict (expand_dims mfcc_seq), Age_predict (expand_dims mfcc_seq)]) p"
  using assms by (simp add: analyze_audio_try_Some step2_age_eq)


lemma calls_shape:
  "\<exists>tr. calls env w p = Extract_mfcc p # Load p # tr \<and>
     (tr = [] \<or>
      (\<exists>mfcc_seq tr2.
         fst (extract_mfcc_sequence env w p 160) = Inr (Some mfcc_seq) \<and>
         tr = Gender_predict (expand_dims mfcc_seq) # tr2 \<and>
         (tr2 = [] \<or>
          (\<exists>gender_pred tr3.
             gender_model env (expand_dims mfcc_seq) = Inr gender_pred \<and>
             argmax gender_pred = Inr 1 \<and>
             tr2 = Age_predict (expand_dims mfcc_seq) # tr3 \<and>
             (tr3 = [] \<or>
              (\<exists>age_pred tr4.
                 age_model env (expand_dims mfcc_seq) = Inr age_pred \<and>
                 argmax age_pred = Inr 1 \<and>
                 tr3 = Extract_mel p # Load p # tr4 \<and>
                 (tr4 = [] \<or>
                  (\<exists>mel_feat.
                     fst (extract_mel_features env
                            (w @ [Extract_mfcc p, Load p, Gender_predict (expand_dims mfcc_seq),
                                  Age_predict (expand_dims mfcc_seq)]) p 160) = Inr (Some mel_feat) \<and>
                     tr4 = [Emotion_predict (expand_dims mel_feat)]))))))))"
proof (cases "extract_mfcc_sequence env w p 160")
  case (Pair r w1)
  have w1: "w1 = w @ [Extract_mfcc p, Load p]"
    using extract_mfcc_sequence_snd[of env w p 160] Pair by simp
  have failed: ?thesis if "snd (analyze_audio_try env w p) = w1"
  proof -
    from that have "snd (analyze_audio env w p) = w @ [Extract_mfcc p, Load p]"
      by (simp add: analyze_audio_on_except on_except_snd w1)
    then have "calls env w p = [Extract_mfcc p, Load p]" by (rule calls_eq)
    then show ?thesis by simp
  qed
  show ?thesis
  proof (cases r)
    case (Inl e)
    then show ?thesis using Pair by (intro failed) (simp add: analyze_audio_try_raise)
  next
    case (Inr opt)
    show ?thesis
    proof (cases opt)
      case None
      then show ?thesis using Pair Inr by (intro failed) (simp add: analyze_audio_try_None)
    next
      case (Some mfcc_seq)
      let ?X = "expand_dims mfcc_seq"
      have ex: "extract_mfcc_sequence env w p 160 = (Inr (Some mfcc_seq), w1)"
        using Pair Inr Some by simp
      show ?thesis
      proof (cases "\<exists>gender_pred. gender_model env ?X = Inr gender_pred \<and> argmax gender_pred = Inr 1")
        case False
        then have "snd (analyze_audio_try env w p) = w1 @ [Gender_predict ?X]"
          by (auto simp: analyze_audio_try_Some[OF ex] split: sum.splits)
        then have "snd (analyze_audio env w p) = w @ [Extract_mfcc p, Load p, Gender_predict ?X]"
          by (simp add: analyze_audio_on_except on_except_snd w1)
        then have "calls env w p = [Extract_mfcc p, Load p, Gender_predict ?X]" by (rule calls_eq)
        then show ?thesis using ex by simp
      next
        case True
        then obtain gender_pred where gp: "gender_model env ?X = Inr gender_pred"
          and am: "argmax gender_pred = Inr 1" by blast
        show ?thesis
        proof (cases "print env ''[INFO] Gender: male''")
          case (Inl e)
          then have "snd (analyze_audio_try env w p) = w1 @ [Gender_predict ?X]"
            by (simp add: analyze_audio_try_Some[OF ex] gp am)
          then have "snd (analyze_audio env w p) = w @ [Extract_mfcc p, Load p, Gender_predict ?X]"
            by (simp add: analyze_audio_on_except on_except_snd w1)
          then have "calls env w p = [Extract_mfcc p, Load p, Gender_predict ?X]" by (rule calls_eq)
          then show ?thesis using ex by simp
        next
          case (Inr u)
        have eq: "analyze_audio_try env w p = step2_age env (w1 @ [Gender_predict ?X]) p ?X"
          using Inr by (intro analyze_audio_male[OF ex gp am]) simp
        from step2_trace[of env "w1 @ [Gender_predict ?X]" p ?X] obtain tr3 where
          tr: "snd (step2_age env (w1 @ [Gender_predict ?X]) p ?X) =
                 (w1 @ [Gender_predict ?X]) @ Age_predict ?X # tr3" and
          sh: "tr3 = [] \<or>
            (\<exists>age_pred. age_model env ?X = Inr age_pred \<and> argmax age_pred = Inr 1) \<and>
            (\<exists>tr'. tr3 = Extract_mel p # Load p # tr' \<and>
               (tr' = [] \<or>
                (\<exists>mel_feat. fst (extract_mel_features env ((w1 @ [Gender_predict ?X]) @ [Age_predict ?X]) p 160)
                              = Inr (Some mel_feat) \<and>
                   tr' = [Emotion_predict (expand_dims mel_feat)])))"
          by blast
        have "snd (analyze_audio env w p) =
                w @ (Extract_mfcc p # Load p # Gender_predict ?X # Age_predict ?X # tr3)"
          using tr by (simp add: analyze_audio_on_except on_except_snd eq w1)
        then have c: "calls env w p = Extract_mfcc p # Load p # Gender_predict ?X # Age_predict ?X # tr3"
          by (rule calls_eq)
        from sh have sh': "tr3 = [] \<or>
            (\<exists>age_pred tr4. age_model env ?X = Inr age_pred \<and> argmax age_pred = Inr 1 \<and>
               tr3 = Extract_mel p # Load p # tr4 \<and>
               (tr4 = [] \<or>
                (\<exists>mel_feat. fst (extract_mel_features env
                      (w @ [Extract_mfcc p, Load p, Gender_predict ?X, Age_predict ?X]) p 160)
                        = Inr (Some mel_feat) \<and>
                   tr4 = [Emotion_predict (expand_dims mel_feat)])))"
          by (auto simp: w1)
        show ?thesis
          using c ex gp am sh' by auto
        qed
      qed
    qed
  qed
qed

lemma male_decidedD:
  "male_decided env X \<Longrightarrow> \<exists>gender_pred. gender_model env X = Inr gender_pred \<and> argmax gender_pred = Inr 1"
  by (auto simp: male_decided_def split: sum.splits)

lemma senior_decidedD:
  "senior_decided env X \<Longrightarrow> \<exists>age_pred. age_model env X = Inr age_pred \<and> argmax age_pred = Inr 1"
  by (auto simp: senior_decided_def split: sum.splits)

lemma male_passedD:
  "male_passed env X \<Longrightarrow>
     \<exists>gender_pred. gender_model env X = Inr gender_pred \<and> argmax gender_pred = Inr 1 \<and>
       print env ''[INFO] Gender: male'' = Inr ()"
  by (auto simp: male_passed_def dest: male_decidedD)

lemma senior_passedD:
  "senior_passed env X \<Longrightarrow>
     \<exists>age_pred. age_model env X = Inr age_pred \<and> argmax age_pred = Inr 1 \<and>
       print env ''[INFO] Age Group: senior'' = Inr ()"
  by (auto simp: senior_passed_def dest: senior_decidedD)

lemma analyze_audio_reaches_step2:
  assumes "fst (extract_mfcc_sequence env w p 160) = Inr (Some mfcc_seq)"
      and "male_passed env (expand_dims mfcc_seq)"
  shows "analyze_audio_try env w p =
           step2_age env (w @ [Extract_mfcc p, Load p, Gender_predict (expand_dims mfcc_seq)]) p
             (expand_dims mfcc_seq)"
proof -
  from fst_eqD[OF assms(1)] obtain w1 where
    ex: "extract_mfcc_sequence env w p 160 = (Inr (Some mfcc_seq), w1)" ..
  have w1: "w1 = w @ [Extract_mfcc p, Load p]"
    using extract_mfcc_sequence_snd[of env w p 160] ex by simp
  from male_passedD[OF assms(2)] obtain gender_pred where
    g: "gender_model env (expand_dims mfcc_seq) = Inr gender_pred" "argmax gender_pred = Inr 1"
       "print env ''[INFO] Gender: male'' = Inr ()"
    by blast
  from analyze_audio_male[OF ex g] show ?thesis by (simp add: w1)
qed

lemma analyze_audio_reaches_step3:
  assumes "fst (extract_mfcc_sequence env w p 160) = Inr (Some mfcc_seq)"
      and "male_passed env (expand_dims mfcc_seq)"
      and "senior_passed env (expand_dims mfcc_seq)"
  shows "analyze_audio_try env w p =
           step3_emotion env
             (w @ [Extract_mfcc p, Load p, Gender_predict (expand_dims mfcc_seq),
                   Age_predict (expand_dims mfcc_seq)]) p"
proof -
  from fst_eqD[OF assms(1)] obtain w1 where
    ex: "extract_mfcc_sequence env w p 160 = (Inr (Some mfcc_seq), w1)" ..
  have w1: "w1 = w @ [Extract_mfcc p, Load p]"
    using extract_mfcc_sequence_snd[of env w p 160] ex by simp
  from male_passedD[OF assms(2)] obtain gender_pred where
    g: "gender_model env (expand_dims mfcc_seq) = Inr gender_pred" "argmax gender_pred = Inr 1"
       "print env ''[INFO] Gender: male'' = Inr ()"
    by blast
  from senior_passedD[OF assms(3)] obtain age_pred where
    a: "age_model env (expand_dims mfcc_seq) = Inr age_pred" "argmax age_pred = Inr 1"
       "print env ''[INFO] Age Group: senior'' = Inr ()"
    by blast
  from analyze_audio_senior[OF ex g a] show ?thesis by (simp add: w1)
qed


lemma analyze_audio_mfcc_failed:
  assumes "fst (extract_mfcc_sequence env w p 160) = Inr None"
  shows "fst (analyze_audio env w p) = Inr (Error ''Could not extract MFCC sequence.'')"
proof -
  from fst_eqD[OF assms] obtain w1 where "extract_mfcc_sequence env w p 160 = (Inr None, w1)" ..
  then show ?thesis
    by (simp add: analyze_audio_on_except analyze_audio_try_None on_except_simps)
qed

lemma analyze_audio_mel_failed:
  assumes "fst (extract_mfcc_sequence env w p 160) = Inr (Some mfcc_seq)"
      and "male_passed env (expand_dims mfcc_seq)"
      and "senior_passed env (expand_dims mfcc_seq)"
      and "fst (extract_mel_features env
             (w @ [Extract_mfcc p, Load p, Gender_predict (expand_dims mfcc_seq),
                   Age_predict (expand_dims mfcc_seq)]) p 160) = Inr None"
  shows "fst (analyze_audio env w p) = Inr (Error ''Could not extract Mel features.'')"
proof -
  from fst_eqD[OF assms(4)] obtain w' where
    "extract_mel_features env
       (w @ [Extract_mfcc p, Load p, Gender_predict (expand_dims mfcc_seq),
             Age_predict (expand_dims mfcc_seq)]) p 160 = (Inr None, w')" ..
  from step3_None[OF this] show ?thesis
    by (simp add: analyze_audio_on_except analyze_audio_reaches_step3[OF assms(1-3)] on_except_simps)
qed


lemma analyze_audio_gender_failed:
  assumes "fst (extract_mfcc_sequence env w p 160) = Inr (Some mfcc_seq)"
      and "gender_model env (expand_dims mfcc_seq) = Inl (Exception e) \<or>
           (\<exists>gender_pred. gender_model env (expand_dims mfcc_seq) = Inr gender_pred \<and>
              (argmax gender_pred = Inl (Exception e) \<or>
               (\<exists>g. argmax gender_pred = Inr g \<and>
                  print env (''[INFO] Gender: '' @ (if g = 1 then ''male'' else ''female''))
                    = Inl (Exception e))))"
      and "handler_prints env e"
  shows "fst (analyze_audio env w p) = Inr (Error e)"
proof -
  from fst_eqD[OF assms(1)] obtain w1 where
    "extract_mfcc_sequence env w p 160 = (Inr (Some mfcc_seq), w1)" ..
  then show ?thesis using assms(2,3)
    by (auto simp: analyze_audio_on_except analyze_audio_try_Some on_except_simps)
qed

lemma analyze_audio_age_failed:
  assumes "fst (extract_mfcc_sequence env w p 160) = Inr (Some mfcc_seq)"
      and "male_passed env (expand_dims mfcc_seq)"
      and "age_model env (expand_dims mfcc_seq) = Inl (Exception e) \<or>
           (\<exists>age_pred. age_model env (expand_dims mfcc_seq) = Inr age_pred \<and>
              (argmax age_pred = Inl (Exception e) \<or>
               (\<exists>a. argmax age_pred = Inr a \<and>
                  print env (''[INFO] Age Group: '' @ (if a = 1 then ''senior'' else ''non-senior''))
                    = Inl (Exception e))))"
      and "handler_prints env e"
  shows "fst (analyze_audio env w p) = Inr (Error e)"
  using assms(3,4)
  by (auto simp: analyze_audio_on_except analyze_audio_reaches_step2[OF assms(1,2)] step2_age_eq
        on_except_simps)

lemma analyze_audio_emotion_failed:
  assumes "fst (extract_mfcc_sequence env w p 160) = Inr (Some mfcc_seq)"
      and "male_passed env (expand_dims mfcc_seq)"
      and "senior_passed env (expand_dims mfcc_seq)"
      and "fst (extract_mel_features env
             (w @ [Extract_mfcc p, Load p, Gender_predict (expand_dims mfcc_seq),
                   Age_predict (expand_dims mfcc_seq)]) p 160) = Inr (Some mel_feat)"
      and "emotion_model env (expand_dims mel_feat) = Inl (Exception e) \<or>
           (\<exists>emotion_pred. emotion_model env (expand_dims mel_feat) = Inr emotion_pred \<and>
              (argmax emotion_pred = Inl (Exception e) \<or>
               (\<exists>k. argmax emotion_pred = Inr k \<and>
                  (emotion_encoder env [k] = Inl (Exception e) \<or>
                   emotion_encoder env [k] = Inr [] \<and>
                     e = ''index 0 is out of bounds for axis 0 with size 0'' \<or>
                   (\<exists>emotion_label rest. emotion_encoder env [k] = Inr (emotion_label # rest) \<and>
                      print env (''[INFO] Emotion: '' @ emotion_label) = Inl (Exception e))))))"
      and "handler_prints env e"
  shows "fst (analyze_audio env w p) = Inr (Error e)"
proof -
  from fst_eqD[OF assms(4)] obtain w' where
    "extract_mel_features env
       (w @ [Extract_mfcc p, Load p, Gender_predict (expand_dims mfcc_seq),
             Age_predict (expand_dims mfcc_seq)]) p 160 = (Inr (Some mel_feat), w')" ..
  from step3_Some[OF this] show ?thesis using assms(5,6)
    by (auto simp: analyze_audio_on_except analyze_audio_reaches_step3[OF assms(1-3)] on_except_simps)
qed

lemma analyze_audio_escapes:
  assumes "fst (analyze_audio env w p) = Inl x"
  shows "(\<exists>m. x = BaseException m \<and> fst (analyze_audio_try env w p) = Inl (BaseException m)) \<or>
         (\<exists>e. fst (analyze_audio_try env w p) = Inl (Exception e) \<and>
              print env (''[ERROR] analyze_audio(): '' @ e) = Inl x)"
  using assms
  by (cases "analyze_audio_try env w p")
     (auto simp: analyze_audio_def split: sum.splits exn.splits)


section \<open>Runs of the example environments\<close>

lemma argmax_examples:
  "argmax [[Fin (1 / 4), Fin (3 / 4)]] = Inr 1"
  "argmax [[Fin (3 / 4), Fin (1 / 4)]] = Inr 0"
  "argmax [[Fin (1 / 10), Fin (9 / 10)]] = Inr 1"
  "argmax [[Fin (9 / 10), Fin (1 / 10)]] = Inr 0"
  "argmax [[Fin 0, Fin 0, Fin 1, Fin 0]] = Inr 2"
  by (simp_all add: argmax_def eval_nat_numeral)

lemma female_env_simps:
  "load female_env k ''a.wav'' sr = Inr ([Fin 1, Fin 10, Fin 100], sr)"
  "mfcc female_env y sr n = Inr (replicate n y)"
  "gender_model female_env X = Inr [[Fin (3 / 4), Fin (1 / 4)]]"
  by (simp_all add: female_env_def demo_env_def)

lemma junior_env_simps:
  "load junior_env k ''a.wav'' sr = Inr ([Fin 1, Fin 10, Fin 100], sr)"
  "mfcc junior_env y sr n = Inr (replicate n y)"
  "gender_model junior_env X = Inr [[Fin (1 / 4), Fin (3 / 4)]]"
  "age_model junior_env X = Inr [[Fin (9 / 10), Fin (1 / 10)]]"
  by (simp_all add: junior_env_def demo_env_def)

lemma rewritten_env_simps:
  "load rewritten_env 0 path sr = Inr ([Fin 1, Fin 10, Fin 100], sr)"
  "load rewritten_env (Suc k) path sr = Inr ([Fin 100, Fin 10, Fin 1], sr)"
  "mfcc rewritten_env y sr n = Inr (replicate n y)"
  "melspectrogram rewritten_env y sr n = Inr (replicate n (map squared y))"
  "gender_model rewritten_env X = Inr [[Fin (1 / 4), Fin (3 / 4)]]"
  "age_model rewritten_env X = Inr [[Fin (1 / 10), Fin (9 / 10)]]"
  "emotion_model rewritten_env X' = Inr [[Fin 0, Fin 0, Fin 1, Fin 0]]"
  "emotion_encoder rewritten_env [2] = Inr [''happy'']"
  by (simp_all add: rewritten_env_def demo_env_def demo_labels_def)

lemma vanished_env_simps:
  "load vanished_env 0 path sr = Inr ([Fin 1, Fin 10, Fin 100], sr)"
  "load vanished_env (Suc k) path sr = Inl (Exception ''No such file or directory'')"
  "mfcc vanished_env y sr n = Inr (replicate n y)"
  "gender_model vanished_env X = Inr [[Fin (1 / 4), Fin (3 / 4)]]"
  "age_model vanished_env X = Inr [[Fin (1 / 10), Fin (9 / 10)]]"
  by (simp_all add: vanished_env_def demo_env_def)

lemma umlaut_env_simps:
  "load umlaut_env k ''a.wav'' sr = Inr ([Fin 1, Fin 10, Fin 100], sr)"
  "mfcc umlaut_env y sr n = Inr (replicate n y)"
  "melspectrogram umlaut_env y sr n = Inr (replicate n (map squared y))"
  "gender_model umlaut_env X = Inr [[Fin (1 / 4), Fin (3 / 4)]]"
  "age_model umlaut_env X = Inr [[Fin (1 / 10), Fin (9 / 10)]]"
  "emotion_model umlaut_env X' = Inr [[Fin 0, Fin 0, Fin 1, Fin 0]]"
  "emotion_encoder umlaut_env [2] = Inr [froehlich]"
  "print umlaut_env = ascii_stdout (unicode_encode_error ''xf6'' ''18'')"
  by (simp_all add: umlaut_env_def demo_env_def)

lemma unprintable_env_simps:
  "load unprintable_env k ''a.wav'' sr = Inr ([Fin 1, Fin 10, Fin 100], sr)"
  "mfcc unprintable_env y sr n = Inr (replicate n y)"
  "gender_model unprintable_env X = Inl (Exception layer_error)"
  "print unprintable_env = ascii_stdout (unicode_encode_error ''xe9'' ''42'')"
  by (simp_all add: unprintable_env_def demo_env_def)

lemma closed_env_simps:
  "load closed_env k ''a.wav'' sr = Inr ([Fin 1, Fin 10, Fin 100], sr)"
  "mfcc closed_env y sr n = Inr (replicate n y)"
  "gender_model closed_env X = Inr [[Fin (1 / 4), Fin (3 / 4)]]"
  "age_model closed_env X = Inr [[Fin (1 / 10), Fin (9 / 10)]]"
  "melspectrogram closed_env y sr n = Inr (replicate n (map squared y))"
  "load closed_env k ''missing.wav'' sr = Inl (Exception ''No such file or directory'')"
  "print closed_env s = Inl (Exception ''I/O operation on closed file.'')"
  by (simp_all add: closed_env_def demo_env_def closed_stdout_def)

lemma closed_female_env_simps:
  "load closed_female_env k ''a.wav'' sr = Inr ([Fin 1, Fin 10, Fin 100], sr)"
  "mfcc closed_female_env y sr n = Inr (replicate n y)"
  "gender_model closed_female_env X = Inr [[Fin (3 / 4), Fin (1 / 4)]]"
  "print closed_female_env s = Inl (Exception ''I/O operation on closed file.'')"
  by (simp_all add: closed_female_env_def female_env_def demo_env_def closed_stdout_def)

lemma hangup_env_simps:
  "load hangup_env k ''a.wav'' sr = Inr ([Fin 1, Fin 10, Fin 100], sr)"
  "mfcc hangup_env y sr n = Inr (replicate n y)"
  "gender_model hangup_env X = Inr [[Fin (1 / 4), Fin (3 / 4)]]"
  "age_model hangup_env X = Inr [[Fin (1 / 10), Fin (9 / 10)]]"
  "melspectrogram hangup_env y sr n = Inr (replicate n (map squared y))"
  "print hangup_env ''[INFO] Gender: male'' = Inr ()"
  "print hangup_env ''[INFO] Age Group: senior'' = Inl (Exception ''[Errno 32] Broken pipe'')"
  "print hangup_env ''[ERROR] analyze_audio(): [Errno 32] Broken pipe'' =
     Inl (Exception ''[Errno 32] Broken pipe'')"
  by (simp_all add: hangup_env_def demo_env_def hangup_stdout_def)

lemma hangup_junior_env_simps:
  "load hangup_junior_env k ''a.wav'' sr = Inr ([Fin 1, Fin 10, Fin 100], sr)"
  "mfcc hangup_junior_env y sr n = Inr (replicate n y)"
  "gender_model hangup_junior_env X = Inr [[Fin (1 / 4), Fin (3 / 4)]]"
  "age_model hangup_junior_env X = Inr [[Fin (9 / 10), Fin (1 / 10)]]"
  "print hangup_junior_env ''[INFO] Gender: male'' = Inr ()"
  "print hangup_junior_env ''[INFO] Age Group: non-senior'' =
     Inl (Exception ''[Errno 32] Broken pipe'')"
  "print hangup_junior_env ''[ERROR] analyze_audio(): [Errno 32] Broken pipe'' =
     Inl (Exception ''[Errno 32] Broken pipe'')"
  by (simp_all add: hangup_junior_env_def junior_env_def demo_env_def hangup_stdout_def)

lemma print_always:
  "print female_env s = Inr ()"
  "print junior_env s = Inr ()"
  "print rewritten_env s = Inr ()"
  "print vanished_env s = Inr ()"
  "print interrupted_env s = Inr ()"
  by (simp_all add: female_env_def junior_env_def rewritten_env_def vanished_env_def
        interrupted_env_def demo_env_def)

lemma interrupted_env_simps:
  "load interrupted_env k ''a.wav'' sr = Inr ([Fin 1, Fin 10, Fin 100], sr)"
  "mfcc interrupted_env y sr n = Inr (replicate n y)"
  "gender_model interrupted_env X = Inl (BaseException [])"
  by (simp_all add: interrupted_env_def demo_env_def)

lemma print_umlaut_info:
  "print umlaut_env ''[INFO] Gender: male'' = Inr ()"
  "print umlaut_env ''[INFO] Age Group: senior'' = Inr ()"
  by (simp_all add: umlaut_env_simps ascii_stdout_def)

lemma print_unicode_encode_error:
  "print umlaut_env (''[ERROR] analyze_audio(): '' @ unicode_encode_error ''xf6'' ''18'') = Inr ()"
  by (simp add: umlaut_env_simps ascii_stdout_def unicode_encode_error_def)

lemma print_froehlich:
  "print umlaut_env (''[INFO] Emotion: '' @ froehlich) =
     Inl (Exception (unicode_encode_error ''xf6'' ''18''))"
  by (simp add: umlaut_env_simps ascii_stdout_def froehlich_def)

lemma print_layer_error:
  "print unprintable_env (''[ERROR] analyze_audio(): '' @ layer_error) =
     Inl (Exception (unicode_encode_error ''xe9'' ''42''))"
  by (simp add: unprintable_env_simps ascii_stdout_def layer_error_def)

lemma extract_demo_mfcc_seq:
  assumes "load env (n_loads w) ''a.wav'' 22050 = Inr ([Fin 1, Fin 10, Fin 100], 22050)"
      and "mfcc env [Fin 1, Fin 10, Fin 100] 22050 13 = Inr (replicate 13 [Fin 1, Fin 10, Fin 100])"
  shows "extract_mfcc_sequence env w ''a.wav'' 160 =
           (Inr (Some demo_mfcc_seq), w @ [Extract_mfcc ''a.wav'', Load ''a.wav''])"
proof -
  have "shape1 (replicate 13 [Fin 1, Fin 10, Fin 100]) = 3"
    by (simp add: shape1_def numeral_eq_Suc)
  then show ?thesis
    using extract_mfcc_sequence_ok[OF assms, of 160]
    by (simp add: fix_length_def demo_mfcc_seq_def)
qed

lemma demo_like_extract_mel:
  assumes "load env (n_loads w) ''a.wav'' 22050 = Inr ([Fin 1, Fin 10, Fin 100], 22050)"
      and "melspectrogram env [Fin 1, Fin 10, Fin 100] 22050 128 =
             Inr (replicate 128 (map squared [Fin 1, Fin 10, Fin 100]))"
  shows "extract_mel_features env w ''a.wav'' 160 =
     (Inr (Some demo_mel_feat), w @ [Extract_mel ''a.wav'', Load ''a.wav''])"
proof -
  have sh1: "shape1 (replicate 128 [Fin (- 40), Fin (- 20), Fin 0]) = 3"
    by (simp add: shape1_def numeral_eq_Suc)
  show ?thesis
    using extract_mel_features_ok[of env w "''a.wav''" "[Fin 1, Fin 10, Fin 100]" 22050
        "replicate 128 [Fin 1, Fin 100, Fin 10000]"
        "replicate 128 [Fin (- 40), Fin (- 20), Fin 0]" 160] assms
    by (simp add: demo_power_to_db fix_length_def sh1 demo_mel_feat_def)
qed

lemma demo_extract_mel_feat:
  "extract_mel_features demo_env w ''a.wav'' 160 =
     (Inr (Some demo_mel_feat), w @ [Extract_mel ''a.wav'', Load ''a.wav''])"
  by (rule demo_like_extract_mel) (simp_all add: demo_env_simps)

lemma decided_examples:
  "male_decided demo_env X" "senior_decided demo_env X"
  "male_decided junior_env X" "\<not> senior_decided junior_env X"
  "\<not> male_decided female_env X"
  "male_decided rewritten_env X" "senior_decided rewritten_env X"
  "male_decided vanished_env X" "senior_decided vanished_env X"
  "male_decided umlaut_env X" "senior_decided umlaut_env X"
  "male_decided hangup_env X" "senior_decided hangup_env X"
  "male_decided closed_env X" "senior_decided closed_env X"
  by (simp_all add: male_decided_def senior_decided_def demo_env_simps junior_env_simps
        female_env_simps rewritten_env_simps vanished_env_simps umlaut_env_simps hangup_env_simps
        closed_env_simps argmax_examples)

lemma passed_examples:
  "male_passed demo_env X" "senior_passed demo_env X"
  "male_passed vanished_env X" "senior_passed vanished_env X"
  "male_passed umlaut_env X" "senior_passed umlaut_env X"
  by (simp_all add: male_passed_def senior_passed_def decided_examples demo_env_simps
        print_always print_umlaut_info)



lemma interrupt_escapes:
  "fst (analyze_audio interrupted_env [] ''a.wav'') = Inl (BaseException [])"
proof -
  have i: "extract_mfcc_sequence interrupted_env [] ''a.wav'' 160 =
             (Inr (Some demo_mfcc_seq), [Extract_mfcc ''a.wav'', Load ''a.wav''])"
    using extract_demo_mfcc_seq[of interrupted_env "[]"]
    by (simp add: interrupted_env_simps n_loads_simps)
  show ?thesis
    by (simp add: analyze_audio_on_except analyze_audio_try_Some[OF i] interrupted_env_simps
          on_except_simps)
qed


lemma closed_female_run:
  "analyze_audio closed_female_env [] ''a.wav'' =
     (Inl (Exception ''I/O operation on closed file.''),
      [Extract_mfcc ''a.wav'', Load ''a.wav'', Gender_predict (expand_dims demo_mfcc_seq)])"
proof -
  have f: "extract_mfcc_sequence closed_female_env [] ''a.wav'' 160 =
             (Inr (Some demo_mfcc_seq), [Extract_mfcc ''a.wav'', Load ''a.wav''])"
    using extract_demo_mfcc_seq[of closed_female_env "[]"]
    by (simp add: closed_female_env_simps n_loads_simps)
  have "analyze_audio_try closed_female_env [] ''a.wav'' =
          (Inl (Exception ''I/O operation on closed file.''),
           [Extract_mfcc ''a.wav'', Load ''a.wav'', Gender_predict (expand_dims demo_mfcc_seq)])"
    by (simp add: analyze_audio_try_Some[OF f] closed_female_env_simps argmax_examples)
  then show ?thesis
    by (simp add: analyze_audio_on_except on_except_def closed_female_env_simps)
qed

lemma closed_run:
  "analyze_audio closed_env [] ''a.wav'' =
     (Inl (Exception ''I/O operation on closed file.''),
      [Extract_mfcc ''a.wav'', Load ''a.wav'', Gender_predict (expand_dims demo_mfcc_seq)])"
proof -
  have f: "extract_mfcc_sequence closed_env [] ''a.wav'' 160 =
             (Inr (Some demo_mfcc_seq), [Extract_mfcc ''a.wav'', Load ''a.wav''])"
    using extract_demo_mfcc_seq[of closed_env "[]"]
    by (simp add: closed_env_simps n_loads_simps)
  have "analyze_audio_try closed_env [] ''a.wav'' =
          (Inl (Exception ''I/O operation on closed file.''),
           [Extract_mfcc ''a.wav'', Load ''a.wav'', Gender_predict (expand_dims demo_mfcc_seq)])"
    by (simp add: analyze_audio_try_Some[OF f] closed_env_simps argmax_examples)
  then show ?thesis
    by (simp add: analyze_audio_on_except on_except_def closed_env_simps)
qed

lemma closed_missing_run:
  "analyze_audio closed_env [] ''missing.wav'' =
     (Inl (Exception ''I/O operation on closed file.''),
      [Extract_mfcc ''missing.wav'', Load ''missing.wav''])"
proof -
  have "extract_mfcc_sequence closed_env [] ''missing.wav'' 160 =
          (Inl (Exception ''I/O operation on closed file.''),
           [Extract_mfcc ''missing.wav'', Load ''missing.wav''])"
    by (simp add: extract_mfcc_sequence_def extract_mfcc_try_def closed_env_simps n_loads_simps)
  then have "analyze_audio_try closed_env [] ''missing.wav'' =
          (Inl (Exception ''I/O operation on closed file.''),
           [Extract_mfcc ''missing.wav'', Load ''missing.wav''])"
    by (rule analyze_audio_try_raise)
  then show ?thesis
    by (simp add: analyze_audio_on_except on_except_def closed_env_simps)
qed



lemma mfcc_seq_examples:
  "extract_mfcc_sequence demo_env [] ''a.wav'' 160 =
     (Inr (Some demo_mfcc_seq), [Extract_mfcc ''a.wav'', Load ''a.wav''])"
  "extract_mfcc_sequence female_env [] ''a.wav'' 160 =
     (Inr (Some demo_mfcc_seq), [Extract_mfcc ''a.wav'', Load ''a.wav''])"
  "extract_mfcc_sequence junior_env [] ''a.wav'' 160 =
     (Inr (Some demo_mfcc_seq), [Extract_mfcc ''a.wav'', Load ''a.wav''])"
  "extract_mfcc_sequence closed_env [] ''a.wav'' 160 =
     (Inr (Some demo_mfcc_seq), [Extract_mfcc ''a.wav'', Load ''a.wav''])"
  "extract_mfcc_sequence closed_female_env [] ''a.wav'' 160 =
     (Inr (Some demo_mfcc_seq), [Extract_mfcc ''a.wav'', Load ''a.wav''])"
  "extract_mfcc_sequence hangup_env [] ''a.wav'' 160 =
     (Inr (Some demo_mfcc_seq), [Extract_mfcc ''a.wav'', Load ''a.wav''])"
  "extract_mfcc_sequence hangup_junior_env [] ''a.wav'' 160 =
     (Inr (Some demo_mfcc_seq), [Extract_mfcc ''a.wav'', Load ''a.wav''])"
  using extract_demo_mfcc_seq[of demo_env "[]"] extract_demo_mfcc_seq[of female_env "[]"]
    extract_demo_mfcc_seq[of junior_env "[]"] extract_demo_mfcc_seq[of closed_env "[]"]
    extract_demo_mfcc_seq[of closed_female_env "[]"] extract_demo_mfcc_seq[of hangup_env "[]"]
    extract_demo_mfcc_seq[of hangup_junior_env "[]"]
  by (simp_all add: demo_env_simps female_env_simps junior_env_simps closed_env_simps
        closed_female_env_simps hangup_env_simps hangup_junior_env_simps n_loads_simps)



section \<open>The claims\<close>

text \<open>
  C1. Whenever \<^verbatim>\<open>extract_mfcc_sequence\<close> succeeds with \<open>max_len = 160\<close>, and librosa's
  \<^verbatim>\<open>mfcc\<close> hands back a 13-row array as it does for \<^verbatim>\<open>n_mfcc=13\<close>, the result is time-major
  of shape \<open>(160, 13)\<close>: frame \<open>t\<close> of the result is frame \<open>t\<close> of the coefficients when the
  signal has that many frames, and is zero otherwise. So a signal with fewer than 160 frames
  gets an all-zero tail, and one with more keeps exactly its first 160 frames.
\<close>

theorem mfcc_time_dimension:
  assumes "extract_mfcc_sequence env w file_path 160 = (Inr (Some out), w')"
      and "\<forall>y sr m. mfcc env y sr 13 = Inr m \<longrightarrow> has_shape m 13 (shape1 m)"
  shows "has_shape out 160 13 \<and>
         (\<exists>y sr m. load env (n_loads w) file_path 22050 = Inr (y, sr) \<and> mfcc env y sr 13 = Inr m \<and>
            (\<forall>t<160. \<forall>k<13. out ! t ! k = (if t < shape1 m then m ! k ! t else Fin 0)))"
proof -
  from extract_mfcc_sequence_Some[OF assms(1)] obtain y sr m where
    ld: "load env (n_loads w) file_path 22050 = Inr (y, sr)" and
    mf: "mfcc env y sr 13 = Inr m" and out: "out = T (fix_length m 160)"
    by blast
  from assms(2) mf have sh: "has_shape m 13 (shape1 m)" by blast
  have fsh: "has_shape (fix_length m 160) 13 160"
    using fix_length_shape[OF sh] by simp
  have "has_shape out 160 13"
    unfolding out using T_shape[OF fsh] by simp
  moreover have "out ! t ! k = (if t < shape1 m then m ! k ! t else Fin 0)"
    if "t < 160" "k < 13" for t k
  proof -
    have "out ! t ! k = fix_length m 160 ! k ! t"
      unfolding out using T_nth[OF fsh _ that(2) that(1)] by simp
    also have "\<dots> = (if t < shape1 m then m ! k ! t else Fin 0)"
      using fix_length_nth[OF sh _ that(2) that(1)] by simp
    finally show ?thesis .
  qed
  ultimately show ?thesis using ld mf by blast
qed

theorem mfcc_time_dimension_witness:
  "fst (extract_mfcc_sequence demo_env [] ''a.wav'' 160)
     = Inr (Some (T (pad (replicate 13 [Fin 1, Fin 10, Fin 100]) 157)))
   \<and> has_shape (T (pad (replicate 13 [Fin 1, Fin 10, Fin 100]) 157)) 160 13
   \<and> T (pad (replicate 13 [Fin 1, Fin 10, Fin 100]) 157) ! 2 ! 12 = Fin 100
   \<and> T (pad (replicate 13 [Fin 1, Fin 10, Fin 100]) 157) ! 3 ! 12 = Fin 0"
proof -
  let ?out = "T (pad (replicate 13 [Fin 1, Fin 10, Fin 100]) 157)"
  have sh1: "shape1 (replicate 13 [Fin 1, Fin 10, Fin 100]) = 3"
    by (simp add: shape1_def numeral_eq_Suc)
  have ex: "extract_mfcc_sequence demo_env [] ''a.wav'' 160 =
              (Inr (Some ?out), [Extract_mfcc ''a.wav'', Load ''a.wav''])"
    by (simp add: extract_mfcc_sequence_def extract_mfcc_try_def demo_env_simps sh1)
  from mfcc_time_dimension[OF ex demo_mfcc_contract]
  obtain y sr m where sh: "has_shape ?out 160 13"
    and ld: "load demo_env (n_loads []) ''a.wav'' 22050 = Inr (y, sr)"
    and mf: "mfcc demo_env y sr 13 = Inr m"
    and el: "\<forall>t<160. \<forall>k<13. ?out ! t ! k = (if t < shape1 m then m ! k ! t else Fin 0)"
    by blast
  from ld mf have m: "m = replicate 13 [Fin 1, Fin 10, Fin 100]"
    by (auto simp: demo_env_simps)
  have "?out ! 2 ! 12 = Fin 100" "?out ! 3 ! 12 = Fin 0"
    using el[rule_format, of 2 12] el[rule_format, of 3 12] by (simp_all add: m sh1)
  with sh ex show ?thesis by simp
qed

text \<open>
  C2. Whenever \<^verbatim>\<open>extract_mel_features\<close> succeeds with \<open>max_len = 160\<close>, and librosa's
  \<^verbatim>\<open>melspectrogram\<close> hands back a 128-row array as it does for \<^verbatim>\<open>n_mels=128\<close>, the result
  has shape \<open>(128, 160, 1)\<close>. It comes from the 128-band mel power spectrogram of the decoded
  signal, converted to decibels: cell \<open>(i, j)\<close> holds, as its single channel, the decibel
  value of frame \<open>j\<close> when the spectrogram has that many frames and zero otherwise.
\<close>

theorem mel_shape:
  assumes "extract_mel_features env w file_path 160 = (Inr (Some out), w')"
      and "\<forall>y sr m. melspectrogram env y sr 128 = Inr m \<longrightarrow> has_shape m 128 (shape1 m)"
  shows "has_shape3 out 128 160 1 \<and>
         (\<exists>y sr mel mel_db.
            load env (n_loads w) file_path 22050 = Inr (y, sr) \<and>
            melspectrogram env y sr 128 = Inr mel \<and>
            power_to_db mel = Inr mel_db \<and>
            (\<forall>i<128. \<forall>j<160. out ! i ! j = [if j < shape1 mel then mel_db ! i ! j else Fin 0]))"
proof -
  from extract_mel_features_Some[OF assms(1)] obtain y sr mel mel_db where
    ld: "load env (n_loads w) file_path 22050 = Inr (y, sr)" and
    ml: "melspectrogram env y sr 128 = Inr mel" and
    db: "power_to_db mel = Inr mel_db" and
    out: "out = newaxis (fix_length mel_db 160)"
    by blast
  from assms(2) ml have "has_shape mel 128 (shape1 mel)" by blast
  then have sh: "has_shape mel_db 128 (shape1 mel)"
    by (rule power_to_db_shape[OF db])
  have fsh: "has_shape (fix_length mel_db 160) 128 160"
    using fix_length_shape[OF sh] by simp
  have "has_shape3 out 128 160 1"
    unfolding out by (rule newaxis_shape[OF fsh])
  moreover have "out ! i ! j = [if j < shape1 mel then mel_db ! i ! j else Fin 0]"
    if "i < 128" "j < 160" for i j
  proof -
    have "out ! i ! j = [fix_length mel_db 160 ! i ! j]"
      unfolding out using that has_shape_length[OF fsh] has_shape_row[OF fsh that(1)]
      by (simp add: newaxis_nth)
    then show ?thesis
      using fix_length_nth[OF sh _ that] by simp
  qed
  ultimately show ?thesis using ld ml db by blast
qed

theorem mel_shape_witness:
  "fst (extract_mel_features demo_env [] ''a.wav'' 160)
     = Inr (Some (newaxis (pad (replicate 128 [Fin (- 40), Fin (- 20), Fin 0]) 157)))
   \<and> has_shape3 (newaxis (pad (replicate 128 [Fin (- 40), Fin (- 20), Fin 0]) 157)) 128 160 1
   \<and> newaxis (pad (replicate 128 [Fin (- 40), Fin (- 20), Fin 0]) 157) ! 127 ! 1 = [Fin (- 20)]
   \<and> newaxis (pad (replicate 128 [Fin (- 40), Fin (- 20), Fin 0]) 157) ! 127 ! 159 = [Fin 0]"
proof -
  let ?out = "newaxis (pad (replicate 128 [Fin (- 40), Fin (- 20), Fin 0]) 157)"
  have ex: "extract_mel_features demo_env [] ''a.wav'' 160 =
              (Inr (Some ?out), [Extract_mel ''a.wav'', Load ''a.wav''])"
    using demo_extract_mel[of "[]"] by simp
  from mel_shape[OF ex demo_mel_contract]
  obtain y sr mel mel_db where sh: "has_shape3 ?out 128 160 1"
    and ld: "load demo_env (n_loads []) ''a.wav'' 22050 = Inr (y, sr)"
    and ml: "melspectrogram demo_env y sr 128 = Inr mel"
    and db: "power_to_db mel = Inr mel_db"
    and el: "\<forall>i<128. \<forall>j<160. ?out ! i ! j = [if j < shape1 mel then mel_db ! i ! j else Fin 0]"
    by blast
  from ld ml have mel: "mel = replicate 128 [Fin 1, Fin 100, Fin 10000]"
    by (auto simp: demo_env_simps)
  with db have mel_db: "mel_db = replicate 128 [Fin (- 40), Fin (- 20), Fin 0]"
    by (simp add: demo_power_to_db)
  have sh1: "shape1 (replicate 128 [Fin 1, Fin 100, Fin 10000]) = 3"
    by (simp add: shape1_def numeral_eq_Suc)
  have "?out ! 127 ! 1 = [Fin (- 20)]" "?out ! 127 ! 159 = [Fin 0]"
    using el[rule_format, of 127 1] el[rule_format, of 127 159]
    by (simp_all add: mel mel_db sh1)
  with sh ex show ?thesis by simp
qed

text \<open>
  C3. In one call of \<^verbatim>\<open>analyze_audio\<close>, \<^verbatim>\<open>extract_mel_features\<close> is called at most once.
  If it or the emotion model is called at all, then the MFCC extraction succeeded, the gender
  model answered with arg-max 1 (male) and the age model answered with arg-max 1 (senior).
  In particular neither is called when the gender arg-max is not 1, nor when the age arg-max
  is not 1.
\<close>

theorem spectrogram_only_after_both_gates:
  "length (filter is_extract_mel (calls env w file_path)) \<le> 1 \<and>
   (filter is_extract_mel (calls env w file_path) \<noteq> [] \<or>
    filter is_emotion_predict (calls env w file_path) \<noteq> [] \<longrightarrow>
      (\<exists>mfcc_seq gender_pred age_pred.
         fst (extract_mfcc_sequence env w file_path 160) = Inr (Some mfcc_seq) \<and>
         gender_model env (expand_dims mfcc_seq) = Inr gender_pred \<and> argmax gender_pred = Inr 1 \<and>
         age_model env (expand_dims mfcc_seq) = Inr age_pred \<and> argmax age_pred = Inr 1)) \<and>
   (\<forall>mfcc_seq gender_pred g.
      fst (extract_mfcc_sequence env w file_path 160) = Inr (Some mfcc_seq) \<and>
      gender_model env (expand_dims mfcc_seq) = Inr gender_pred \<and> argmax gender_pred = Inr g \<and> g \<noteq> 1
      \<longrightarrow> filter is_extract_mel (calls env w file_path) = [] \<and>
          filter is_emotion_predict (calls env w file_path) = []) \<and>
   (\<forall>mfcc_seq age_pred a.
      fst (extract_mfcc_sequence env w file_path 160) = Inr (Some mfcc_seq) \<and>
      age_model env (expand_dims mfcc_seq) = Inr age_pred \<and> argmax age_pred = Inr a \<and> a \<noteq> 1
      \<longrightarrow> filter is_extract_mel (calls env w file_path) = [] \<and>
          filter is_emotion_predict (calls env w file_path) = [])"
proof -
  let ?c = "calls env w file_path"
  have once: "length (filter is_extract_mel ?c) \<le> 1"
    using calls_shape[of env w file_path] by auto
  have only: "\<exists>mfcc_seq gender_pred age_pred.
         fst (extract_mfcc_sequence env w file_path 160) = Inr (Some mfcc_seq) \<and>
         gender_model env (expand_dims mfcc_seq) = Inr gender_pred \<and> argmax gender_pred = Inr 1 \<and>
         age_model env (expand_dims mfcc_seq) = Inr age_pred \<and> argmax age_pred = Inr 1"
    if "filter is_extract_mel ?c \<noteq> [] \<or> filter is_emotion_predict ?c \<noteq> []"
    using calls_shape[of env w file_path] that by auto
  have female: "filter is_extract_mel ?c = [] \<and> filter is_emotion_predict ?c = []"
    if "fst (extract_mfcc_sequence env w file_path 160) = Inr (Some mfcc_seq)"
       "gender_model env (expand_dims mfcc_seq) = Inr gender_pred"
       "argmax gender_pred = Inr g" "g \<noteq> 1"
    for mfcc_seq gender_pred g
  proof (rule ccontr)
    assume "\<not> ?thesis"
    then have "filter is_extract_mel ?c \<noteq> [] \<or> filter is_emotion_predict ?c \<noteq> []" by blast
    from only[OF this] that show False by auto
  qed
  have junior: "filter is_extract_mel ?c = [] \<and> filter is_emotion_predict ?c = []"
    if "fst (extract_mfcc_sequence env w file_path 160) = Inr (Some mfcc_seq)"
       "age_model env (expand_dims mfcc_seq) = Inr age_pred"
       "argmax age_pred = Inr a" "a \<noteq> 1"
    for mfcc_seq age_pred a
  proof (rule ccontr)
    assume "\<not> ?thesis"
    then have "filter is_extract_mel ?c \<noteq> [] \<or> filter is_emotion_predict ?c \<noteq> []" by blast
    from only[OF this] that show False by auto
  qed
  from once only female junior show ?thesis by blast
qed

theorem spectrogram_only_after_both_gates_witness:
  "length (filter is_extract_mel (calls demo_env [] ''a.wav'')) \<le> 1 \<and>
   filter is_extract_mel (calls female_env [] ''a.wav'') = [] \<and>
   filter is_emotion_predict (calls female_env [] ''a.wav'') = [] \<and>
   filter is_extract_mel (calls junior_env [] ''a.wav'') = [] \<and>
   filter is_emotion_predict (calls junior_env [] ''a.wav'') = []"
proof -
  have f: "fst (extract_mfcc_sequence female_env [] ''a.wav'' 160) = Inr (Some demo_mfcc_seq)"
    by (simp add: extract_demo_mfcc_seq female_env_simps n_loads_simps)
  have j: "fst (extract_mfcc_sequence junior_env [] ''a.wav'' 160) = Inr (Some demo_mfcc_seq)"
    by (simp add: extract_demo_mfcc_seq junior_env_simps n_loads_simps)
  have "filter is_extract_mel (calls female_env [] ''a.wav'') = [] \<and>
        filter is_emotion_predict (calls female_env [] ''a.wav'') = []"
    using spectrogram_only_after_both_gates[of female_env "[]" "''a.wav''"] f
    by (simp add: female_env_simps argmax_examples)
  moreover have "filter is_extract_mel (calls junior_env [] ''a.wav'') = [] \<and>
        filter is_emotion_predict (calls junior_env [] ''a.wav'') = []"
    using spectrogram_only_after_both_gates[of junior_env "[]" "''a.wav''"] j
    by (simp add: junior_env_simps argmax_examples)
  moreover have "length (filter is_extract_mel (calls demo_env [] ''a.wav'')) \<le> 1"
    using spectrogram_only_after_both_gates[of demo_env "[]" "''a.wav''"] by blast
  ultimately show ?thesis by blast
qed

text \<open>
  C4, as the spec states it: whenever the arg-max of the gender model's answer is not 1 the
  call ends with the rejection for a female voice, and whenever it is 1 the call goes on
  with the age stage. It does not in every run: the decision is printed inside the \<^verbatim>\<open>try\<close>,
  between the arg-max and the test. With a closed standard output that \<^verbatim>\<open>print\<close> raises
  \<^verbatim>\<open>ValueError\<close>, the \<^verbatim>\<open>except\<close> clause prints in its turn and raises again: a female voice
  ends in a raised exception and not in a rejection.
\<close>

theorem gender_stage_counterexample:
  "extract_mfcc_sequence closed_female_env [] ''a.wav'' 160 =
     (Inr (Some demo_mfcc_seq), [Extract_mfcc ''a.wav'', Load ''a.wav'']) \<and>
   gender_model closed_female_env (expand_dims demo_mfcc_seq) = Inr [[Fin (3 / 4), Fin (1 / 4)]] \<and>
   argmax [[Fin (3 / 4), Fin (1 / 4)]] = Inr 0 \<and>
   fst (analyze_audio closed_female_env [] ''a.wav'') =
     Inl (Exception ''I/O operation on closed file.'') \<and>
   fst (analyze_audio closed_female_env [] ''a.wav'') \<noteq> Inr (Rejected ''Female voice detected.'')"
  by (simp add: mfcc_seq_examples closed_female_env_simps argmax_examples closed_female_run)

text \<open>
  C4, amended: the gender stage takes the arg-max of the gender model's answer, and the line
  that reports the decision is printed. When that line can be written, any index other than
  1 is female: the call ends there, with the rejection for a female voice, after the gender
  model as its last call. Index 1 is male: the call goes on with the age stage, and the age
  model is the next call. With a standard output that takes the line, a gender model that
  always answers class 0 therefore rejects every recording whose MFCC extraction succeeds.
\<close>

theorem gender_stage:
  assumes "extract_mfcc_sequence env w file_path 160 = (Inr (Some mfcc_seq), w1)"
      and "gender_model env (expand_dims mfcc_seq) = Inr gender_pred"
      and "argmax gender_pred = Inr g"
      and "print env (''[INFO] Gender: '' @ (if g = 1 then ''male'' else ''female'')) = Inr ()"
  shows "(g \<noteq> 1 \<longrightarrow>
            fst (analyze_audio env w file_path) = Inr (Rejected ''Female voice detected.'') \<and>
            calls env w file_path =
              [Extract_mfcc file_path, Load file_path, Gender_predict (expand_dims mfcc_seq)]) \<and>
         (g = 1 \<longrightarrow>
            analyze_audio_try env w file_path =
              step2_age env (w1 @ [Gender_predict (expand_dims mfcc_seq)]) file_path
                (expand_dims mfcc_seq) \<and>
            take 4 (calls env w file_path) =
              [Extract_mfcc file_path, Load file_path, Gender_predict (expand_dims mfcc_seq),
               Age_predict (expand_dims mfcc_seq)])"
proof -
  let ?X = "expand_dims mfcc_seq"
  have w1: "w1 = w @ [Extract_mfcc file_path, Load file_path]"
    using extract_mfcc_sequence_snd[of env w file_path 160] assms(1) by simp
  have female: "fst (analyze_audio env w file_path) = Inr (Rejected ''Female voice detected.'') \<and>
      calls env w file_path = [Extract_mfcc file_path, Load file_path, Gender_predict ?X]"
    if "g \<noteq> 1"
  proof -
    have "print env ''[INFO] Gender: female'' = Inr ()" using assms(4) that by simp
    from analyze_audio_rejected_female[OF assms(1-3) that this] show ?thesis
      by (simp add: calls_def w1)
  qed
  have male: "analyze_audio_try env w file_path = step2_age env (w1 @ [Gender_predict ?X]) file_path ?X \<and>
      take 4 (calls env w file_path) =
        [Extract_mfcc file_path, Load file_path, Gender_predict ?X, Age_predict ?X]"
    if "g = 1"
  proof -
    have p: "print env ''[INFO] Gender: male'' = Inr ()" using assms(4) that by simp
    have am: "argmax gender_pred = Inr 1" using assms(3) that by simp
    have eq: "analyze_audio_try env w file_path = step2_age env (w1 @ [Gender_predict ?X]) file_path ?X"
      by (rule analyze_audio_male[OF assms(1,2) am p])
    obtain tr where "snd (step2_age env (w1 @ [Gender_predict ?X]) file_path ?X) =
        (w1 @ [Gender_predict ?X]) @ Age_predict ?X # tr"
      using step2_trace by blast
    then have "snd (analyze_audio env w file_path) =
        w @ [Extract_mfcc file_path, Load file_path, Gender_predict ?X, Age_predict ?X] @ tr"
      by (simp add: analyze_audio_on_except on_except_snd eq w1)
    then have "calls env w file_path =
        [Extract_mfcc file_path, Load file_path, Gender_predict ?X, Age_predict ?X] @ tr"
      by (rule calls_eq)
    with eq show ?thesis by simp
  qed
  from female male show ?thesis by blast
qed

theorem gender_stage_witness:
  "print female_env ''[INFO] Gender: female'' = Inr () \<and>
   print demo_env ''[INFO] Gender: male'' = Inr () \<and>
   fst (analyze_audio female_env [] ''a.wav'') = Inr (Rejected ''Female voice detected.'') \<and>
   calls female_env [] ''a.wav'' =
     [Extract_mfcc ''a.wav'', Load ''a.wav'', Gender_predict (expand_dims demo_mfcc_seq)] \<and>
   take 4 (calls demo_env [] ''a.wav'') =
     [Extract_mfcc ''a.wav'', Load ''a.wav'', Gender_predict (expand_dims demo_mfcc_seq),
      Age_predict (expand_dims demo_mfcc_seq)]"
proof -
  have pf: "print female_env (''[INFO] Gender: '' @ (if (0::nat) = 1 then ''male'' else ''female'')) = Inr ()"
    by (simp add: print_always)
  have pm: "print demo_env (''[INFO] Gender: '' @ (if (1::nat) = 1 then ''male'' else ''female'')) = Inr ()"
    by (simp add: demo_env_simps)
  show ?thesis
    using gender_stage[OF mfcc_seq_examples(2) female_env_simps(3) argmax_examples(2) pf]
          gender_stage[OF mfcc_seq_examples(1) demo_env_simps(5) argmax_examples(1) pm]
    by (simp add: print_always demo_env_simps)
qed




text \<open>
  C6, as the spec states it: whenever the gender stage decided male, the age stage decided
  senior and the mel extraction succeeded, the call returns the detection of the label that
  the encoder gives for the arg-max of the emotion model's answer. It does not in every
  run: the label is printed inside the \<^verbatim>\<open>try\<close> before it is returned, as both decisions are
  before they are acted on. With a label table whose class 2 is written with an umlaut and a
  standard output that encodes ASCII only, the print of the label raises and the call
  returns an error result with the text of the encoding error. With a closed standard output
  the print of the male decision raises, and the call ends in a raised exception.
\<close>

theorem emotion_stage_counterexample:
  "fst (extract_mfcc_sequence umlaut_env [] ''a.wav'' 160) = Inr (Some demo_mfcc_seq) \<and>
   male_decided umlaut_env (expand_dims demo_mfcc_seq) \<and>
   senior_decided umlaut_env (expand_dims demo_mfcc_seq) \<and>
   fst (extract_mel_features umlaut_env
          [Extract_mfcc ''a.wav'', Load ''a.wav'', Gender_predict (expand_dims demo_mfcc_seq),
           Age_predict (expand_dims demo_mfcc_seq)] ''a.wav'' 160) = Inr (Some demo_mel_feat) \<and>
   emotion_model umlaut_env (expand_dims demo_mel_feat) = Inr [[Fin 0, Fin 0, Fin 1, Fin 0]] \<and>
   argmax [[Fin 0, Fin 0, Fin 1, Fin 0]] = Inr 2 \<and>
   emotion_encoder umlaut_env [2] = Inr [froehlich] \<and>
   fst (analyze_audio umlaut_env [] ''a.wav'') = Inr (Error (unicode_encode_error ''xf6'' ''18'')) \<and>
   fst (analyze_audio umlaut_env [] ''a.wav'') \<noteq> Inr (Detected froehlich) \<and>
   fst (extract_mfcc_sequence closed_env [] ''a.wav'' 160) = Inr (Some demo_mfcc_seq) \<and>
   male_decided closed_env (expand_dims demo_mfcc_seq) \<and>
   senior_decided closed_env (expand_dims demo_mfcc_seq) \<and>
   fst (extract_mel_features closed_env
          [Extract_mfcc ''a.wav'', Load ''a.wav'', Gender_predict (expand_dims demo_mfcc_seq),
           Age_predict (expand_dims demo_mfcc_seq)] ''a.wav'' 160) = Inr (Some demo_mel_feat) \<and>
   fst (analyze_audio closed_env [] ''a.wav'') = Inl (Exception ''I/O operation on closed file.'')"
proof -
  let ?X = "expand_dims demo_mfcc_seq"
  let ?w3 = "[Extract_mfcc ''a.wav'', Load ''a.wav'', Gender_predict ?X, Age_predict ?X]"
  have u: "extract_mfcc_sequence umlaut_env [] ''a.wav'' 160 =
             (Inr (Some demo_mfcc_seq), [Extract_mfcc ''a.wav'', Load ''a.wav''])"
    using extract_demo_mfcc_seq[of umlaut_env "[]"] by (simp add: umlaut_env_simps n_loads_simps)
  have mel: "extract_mel_features umlaut_env ?w3 ''a.wav'' 160 =
               (Inr (Some demo_mel_feat), ?w3 @ [Extract_mel ''a.wav'', Load ''a.wav''])"
    by (rule demo_like_extract_mel) (simp_all add: umlaut_env_simps)
  have cmel: "extract_mel_features closed_env ?w3 ''a.wav'' 160 =
               (Inr (Some demo_mel_feat), ?w3 @ [Extract_mel ''a.wav'', Load ''a.wav''])"
    by (rule demo_like_extract_mel) (simp_all add: closed_env_simps)
  have "analyze_audio_try umlaut_env [] ''a.wav'' =
          step3_emotion umlaut_env ?w3 ''a.wav''"
    using analyze_audio_senior[OF u umlaut_env_simps(4) argmax_examples(1) print_umlaut_info(1)
            umlaut_env_simps(5) argmax_examples(3) print_umlaut_info(2)] by simp
  then have "analyze_audio_try umlaut_env [] ''a.wav'' =
          (Inl (Exception (unicode_encode_error ''xf6'' ''18'')),
           ?w3 @ [Extract_mel ''a.wav'', Load ''a.wav'', Emotion_predict (expand_dims demo_mel_feat)])"
    by (simp add: step3_Some[OF mel] umlaut_env_simps(1-7) argmax_examples
          print_froehlich[simplified])
  then have "fst (analyze_audio umlaut_env [] ''a.wav'') =
               Inr (Error (unicode_encode_error ''xf6'' ''18''))"
    by (simp add: analyze_audio_on_except on_except_simps handler_prints_def
          print_unicode_encode_error[simplified])
  with u mel cmel show ?thesis
    by (simp add: decided_examples umlaut_env_simps(1-7) argmax_examples mfcc_seq_examples
          closed_run)
qed

text \<open>
  C6, amended: when the gender stage decided male, the age stage decided senior, the mel
  extraction succeeded and the three lines that report the gender, the age group and the
  label can be written, the call returns the detected emotion: the label that the encoder's
  inverse transform gives for the arg-max of the emotion model's answer. With the emotion
  model answering class 2 and the label table mapping 2 to happy, the result is the
  detection of happy.
\<close>

theorem emotion_stage:
  assumes "extract_mfcc_sequence env w file_path 160 = (Inr (Some mfcc_seq), w1)"
      and "gender_model env (expand_dims mfcc_seq) = Inr gender_pred"
      and "argmax gender_pred = Inr 1"
      and "print env ''[INFO] Gender: male'' = Inr ()"
      and "age_model env (expand_dims mfcc_seq) = Inr age_pred"
      and "argmax age_pred = Inr 1"
      and "print env ''[INFO] Age Group: senior'' = Inr ()"
      and "extract_mel_features env
             (w1 @ [Gender_predict (expand_dims mfcc_seq), Age_predict (expand_dims mfcc_seq)])
             file_path 160 = (Inr (Some mel_feat), w2)"
      and "emotion_model env (expand_dims mel_feat) = Inr emotion_pred"
      and "argmax emotion_pred = Inr k"
      and "emotion_encoder env [k] = Inr (emotion_label # rest)"
      and "print env (''[INFO] Emotion: '' @ emotion_label) = Inr ()"
  shows "analyze_audio env w file_path =
           (Inr (Detected emotion_label), w2 @ [Emotion_predict (expand_dims mel_feat)]) \<and>
         map_sum id render (fst (analyze_audio env w file_path)) =
           Inr (check_mark @ '' Detected Emotion: '' @ emotion_label)"
proof -
  have "analyze_audio_try env w file_path =
          (Inr (Detected emotion_label), w2 @ [Emotion_predict (expand_dims mel_feat)])"
    unfolding analyze_audio_senior[OF assms(1-7)] step3_Some[OF assms(8)]
    using assms(9-12) by simp
  then show ?thesis
    by (simp add: analyze_audio_on_except on_except_simps)
qed

theorem emotion_stage_witness:
  "argmax [[Fin 0, Fin 0, Fin 1, Fin 0]] = Inr 2 \<and> emotion_encoder demo_env [2] = Inr [''happy''] \<and>
   print demo_env ''[INFO] Gender: male'' = Inr () \<and>
   print demo_env ''[INFO] Age Group: senior'' = Inr () \<and>
   print demo_env ''[INFO] Emotion: happy'' = Inr () \<and>
   analyze_audio demo_env [] ''a.wav'' =
     (Inr (Detected ''happy''),
      [Extract_mfcc ''a.wav'', Load ''a.wav'', Gender_predict (expand_dims demo_mfcc_seq),
       Age_predict (expand_dims demo_mfcc_seq), Extract_mel ''a.wav'', Load ''a.wav'',
       Emotion_predict (expand_dims demo_mel_feat)]) \<and>
   map_sum id render (fst (analyze_audio demo_env [] ''a.wav'')) =
     Inr (check_mark @ '' Detected Emotion: happy'')"
proof -
  have p: "print demo_env (''[INFO] Emotion: '' @ ''happy'') = Inr ()"
    by (simp add: demo_env_simps)
  show ?thesis
    using emotion_stage[OF mfcc_seq_examples(1) demo_env_simps(5) argmax_examples(1)
            demo_env_simps(9) demo_env_simps(6) argmax_examples(3) demo_env_simps(9)
            demo_extract_mel_feat demo_env_simps(7) argmax_examples(5) demo_env_simps(8) p]
    by (simp add: argmax_examples demo_env_simps)
qed
text \<open>
  C7, as the spec states it: the largest entry of the tensor that \<^verbatim>\<open>extract_mel_features\<close>
  returns is 0 for every signal. It is not: the decibel conversion puts 0 where the power
  is largest, and the truncation to 160 frames comes after it. A recording with power 1 in
  its first 160 frames and power 100 in frame 161 yields a tensor whose entries are all -20.
\<close>

theorem mel_max_counterexample:
  "fst (extract_mel_features crescendo_env [] ''a.wav'' 160)
     = Inr (Some (newaxis (replicate 128 (replicate 160 (Fin (- 20))))))
   \<and> tensor_max (newaxis (replicate 128 (replicate 160 (Fin (- 20))))) = Inr (Fin (- 20))
   \<and> tensor_max (newaxis (replicate 128 (replicate 160 (Fin (- 20))))) \<noteq> Inr (Fin 0)"
proof -
  have sh1: "shape1 (replicate 128 (replicate 160 (Fin (- 20)) @ [Fin 0])) = 161"
    by (simp add: shape1_def numeral_eq_Suc)
  have "extract_mel_features crescendo_env [] ''a.wav'' 160 =
          (Inr (Some (newaxis (replicate 128 (replicate 160 (Fin (- 20)))))),
           [Extract_mel ''a.wav'', Load ''a.wav''])"
    using extract_mel_features_ok[of crescendo_env "[]" "''a.wav''"
        "replicate 160 (Fin 1) @ [Fin 10]" 22050
        "replicate 128 (replicate 160 (Fin 1) @ [Fin 100])"
        "replicate 128 (replicate 160 (Fin (- 20)) @ [Fin 0])" 160]
    by (simp add: crescendo_env_simps crescendo_power_to_db fix_length_def sh1 slice_to_def)
  moreover have "tensor_max (newaxis (replicate 128 (replicate 160 (Fin (- 20))))) = Inr (Fin (- 20))"
  proof -
    have "replicate 128 (replicate 160 (Fin (- 20))) = map (map Fin) (replicate 128 (replicate 160 (- 20)))"
      by simp
    then have "np_max (replicate 128 (replicate 160 (Fin (- 20)))) =
                 Inr (Fin (Max (set (concat (replicate 128 (replicate 160 (- 20 :: real)))))))"
      using np_max_Fin[of "replicate 128 (replicate 160 (- 20))"] by simp
    then show ?thesis by (simp add: tensor_max_newaxis)
  qed
  ultimately show ?thesis by simp
qed

text \<open>
  C7, amended: when no power of the mel spectrogram has overflowed, so that every one is a
  finite number, no entry of the returned tensor is above 0, and the largest entry is
  exactly 0 whenever the spectrogram has at most 160 frames or reaches its largest power
  within its first 160 frames.
\<close>

theorem mel_max_amended:
  assumes "extract_mel_features env w file_path 160 = (Inr (Some out), w')"
      and "\<forall>y sr m. melspectrogram env y sr 128 = Inr m \<longrightarrow> has_shape m 128 (shape1 m)"
  shows "\<exists>y sr mel.
            load env (n_loads w) file_path 22050 = Inr (y, sr) \<and>
            melspectrogram env y sr 128 = Inr mel \<and>
            (finite_cells mel \<longrightarrow>
               (\<forall>v \<in> set (concat (concat out)). \<exists>r. v = Fin r \<and> r \<le> 0) \<and>
               (shape1 mel \<le> 160 \<or>
                (\<exists>i<128. \<exists>j<160. j < shape1 mel \<and> np_max mel = Inr (mel ! i ! j))
                  \<longrightarrow> tensor_max out = Inr (Fin 0)))"
proof -
  from extract_mel_features_Some[OF assms(1)] obtain y sr mel mel_db where
    ld: "load env (n_loads w) file_path 22050 = Inr (y, sr)" and
    ml: "melspectrogram env y sr 128 = Inr mel" and
    db: "power_to_db mel = Inr mel_db" and
    out: "out = newaxis (fix_length mel_db 160)"
    by blast
  let ?F = "fix_length mel_db 160"
  let ?c = "shape1 mel"
  from assms(2) ml have shm: "has_shape mel 128 ?c" by blast
  then have sh: "has_shape mel_db 128 ?c"
    by (rule power_to_db_shape[OF db])
  have fsh: "has_shape ?F 128 160"
    using fix_length_shape[OF sh] by simp
  have flat: "concat (concat out) = concat ?F"
    unfolding out by (rule concat_newaxis)
  have le: "\<exists>r. v = Fin r \<and> r \<le> 0" if fin: "finite_cells mel" and "v \<in> set (concat ?F)" for v
  proof -
    from that(2)[unfolded in_concat_nth] obtain i j
      where i: "i < 128" and j: "j < 160" and v: "v = ?F ! i ! j"
      using has_shape_length[OF fsh] has_shape_row[OF fsh] by auto
    show ?thesis
    proof (cases "j < ?c")
      case True
      then have "mel_db ! i ! j \<in> set (concat mel_db)"
        using i has_shape_length[OF sh] has_shape_row[OF sh i] by (intro nth_in_concat) simp_all
      then have "\<exists>r. mel_db ! i ! j = Fin r \<and> r \<le> 0" by (rule power_to_db_le[OF fin db])
      then show ?thesis using fix_length_nth[OF sh _ i j] True v by simp
    next
      case False
      then show ?thesis using fix_length_nth[OF sh _ i j] v by simp
    qed
  qed
  have zero: "tensor_max out = Inr (Fin 0)"
    if fin: "finite_cells mel" and
      "?c \<le> 160 \<or> (\<exists>i<128. \<exists>j<160. j < ?c \<and> np_max mel = Inr (mel ! i ! j))"
  proof -
    have "\<exists>i<128. \<exists>j<160. ?F ! i ! j = Fin 0"
    proof (cases "?c < 160")
      case True
      then have "?F ! 0 ! ?c = Fin 0"
        using fix_length_nth[OF sh, of 0 ?c] by simp
      with True show ?thesis by (intro exI[of _ 0] conjI exI[of _ ?c]) simp_all
    next
      case False
      have "\<exists>i<128. \<exists>j<160. j < ?c \<and> np_max mel = Inr (mel ! i ! j)"
      proof (cases "?c \<le> 160")
        case True
        from np_max_attained[OF fin power_to_db_nonempty[OF db]] obtain m where
          m: "np_max mel = Inr m" "m \<in> set (concat mel)" by blast
        from m(2)[unfolded in_concat_nth] obtain i j where "i < 128" "j < ?c" "mel ! i ! j = m"
          using has_shape_length[OF shm] has_shape_row[OF shm] by auto
        with True m(1) show ?thesis by (intro exI[of _ i] conjI exI[of _ j]) simp_all
      next
        case False
        with that(2) show ?thesis by simp
      qed
      then obtain i j where i: "i < 128" and j: "j < 160" and jc: "j < ?c"
        and mx: "np_max mel = Inr (mel ! i ! j)" by blast
      have "mel_db ! i ! j = Fin 0"
        by (rule power_to_db_at_max[OF fin db shm i jc mx])
      then have "?F ! i ! j = Fin 0"
        using fix_length_nth[OF sh _ i j] jc by simp
      with i j show ?thesis by blast
    qed
    then obtain i j where i: "i < 128" and j: "j < 160" and z: "?F ! i ! j = Fin 0" by blast
    have mem: "Fin 0 \<in> set (concat ?F)"
      using nth_in_concat[of i ?F j] i j z has_shape_length[OF fsh] has_shape_row[OF fsh i]
      by simp
    have "amax (concat ?F) = Inr (Fin 0)"
      by (rule amax_eqI[OF mem]) (rule le[OF fin])
    then show ?thesis by (simp add: tensor_max_def flat)
  qed
  show ?thesis
    using le ld ml zero unfolding flat by blast
qed

theorem mel_max_amended_witness:
  "fst (extract_mel_features demo_env [] ''a.wav'' 160)
     = Inr (Some (newaxis (pad (replicate 128 [Fin (- 40), Fin (- 20), Fin 0]) 157)))
   \<and> finite_cells (replicate 128 [Fin 1, Fin 100, Fin 10000])
   \<and> tensor_max (newaxis (pad (replicate 128 [Fin (- 40), Fin (- 20), Fin 0]) 157)) = Inr (Fin 0)"
proof -
  let ?out = "newaxis (pad (replicate 128 [Fin (- 40), Fin (- 20), Fin 0]) 157)"
  have ex: "extract_mel_features demo_env [] ''a.wav'' 160 =
              (Inr (Some ?out), [Extract_mel ''a.wav'', Load ''a.wav''])"
    using demo_extract_mel[of "[]"] by simp
  from mel_max_amended[OF ex demo_mel_contract]
  obtain y sr mel where
        ld: "load demo_env (n_loads []) ''a.wav'' 22050 = Inr (y, sr)"
    and ml: "melspectrogram demo_env y sr 128 = Inr mel"
    and mx: "finite_cells mel \<longrightarrow>
               (\<forall>v \<in> set (concat (concat ?out)). \<exists>r. v = Fin r \<and> r \<le> 0) \<and>
               (shape1 mel \<le> 160 \<or>
                (\<exists>i<128. \<exists>j<160. j < shape1 mel \<and> np_max mel = Inr (mel ! i ! j))
                  \<longrightarrow> tensor_max ?out = Inr (Fin 0))"
    by blast
  from ld ml have mel: "mel = replicate 128 [Fin 1, Fin 100, Fin 10000]"
    by (auto simp: demo_env_simps)
  have fin: "finite_cells mel"
    by (simp add: mel finite_cells_def list_all_iff)
  have "shape1 mel \<le> 160"
    by (simp add: mel shape1_def numeral_eq_Suc)
  with mx fin have "tensor_max ?out = Inr (Fin 0)" by blast
  with ex fin show ?thesis by (simp add: mel)
qed


text \<open>
  C8, as the spec states it: \<^verbatim>\<open>analyze_audio\<close> never lets a failure inside it escape as a
  raised exception; every failure of a decode, of a feature extraction or of a model becomes
  an error result, and a path to a file that does not exist gives an error result. It does
  not always: each \<^verbatim>\<open>except\<close> clause prints the exception's text before it returns, and that
  \<^verbatim>\<open>print\<close> stands outside any \<^verbatim>\<open>try\<close> of its function. With a closed standard output and a
  file that does not exist, the handler of \<^verbatim>\<open>extract_mfcc_sequence\<close> raises \<^verbatim>\<open>ValueError\<close> from
  its print, the handler of \<^verbatim>\<open>analyze_audio\<close> catches that and raises it again from its own,
  and the exception leaves \<^verbatim>\<open>analyze_audio\<close>. With a standard output that encodes ASCII only
  and a gender model whose \<^verbatim>\<open>predict\<close> raises an exception with an accented letter in its
  text, the print in the handler raises \<^verbatim>\<open>UnicodeEncodeError\<close>, which leaves \<^verbatim>\<open>analyze_audio\<close>
  as well.
\<close>

theorem failures_become_errors_counterexample:
  "load closed_env 0 ''missing.wav'' 22050 = Inl (Exception ''No such file or directory'') \<and>
   fst (analyze_audio closed_env [] ''missing.wav'') =
     Inl (Exception ''I/O operation on closed file.'') \<and>
   fst (extract_mfcc_sequence unprintable_env [] ''a.wav'' 160) = Inr (Some demo_mfcc_seq) \<and>
   gender_model unprintable_env (expand_dims demo_mfcc_seq) = Inl (Exception layer_error) \<and>
   fst (analyze_audio unprintable_env [] ''a.wav'') =
     Inl (Exception (unicode_encode_error ''xe9'' ''42''))"
proof -
  have u: "extract_mfcc_sequence unprintable_env [] ''a.wav'' 160 =
             (Inr (Some demo_mfcc_seq), [Extract_mfcc ''a.wav'', Load ''a.wav''])"
    using extract_demo_mfcc_seq[of unprintable_env "[]"]
    by (simp add: unprintable_env_simps n_loads_simps)
  have "analyze_audio_try unprintable_env [] ''a.wav'' =
          (Inl (Exception layer_error),
           [Extract_mfcc ''a.wav'', Load ''a.wav'', Gender_predict (expand_dims demo_mfcc_seq)])"
    by (simp add: analyze_audio_try_Some[OF u] unprintable_env_simps(1-3))
  then have "fst (analyze_audio unprintable_env [] ''a.wav'') =
               Inl (Exception (unicode_encode_error ''xe9'' ''42''))"
    by (simp add: analyze_audio_on_except on_except_simps(4)[OF print_layer_error])
  with u show ?thesis by (simp add: unprintable_env_simps(1-3) closed_env_simps closed_missing_run)
qed

text \<open>
  C8, amended: a failure inside \<^verbatim>\<open>analyze_audio\<close> that is an instance of \<^verbatim>\<open>Exception\<close>
  ends in an error result whenever the line that the handling \<^verbatim>\<open>except\<close> clause prints about
  it can be written. What leaves \<^verbatim>\<open>analyze_audio\<close> as a raised exception is only an exception
  that is not an instance of \<^verbatim>\<open>Exception\<close>, or one that the print in its own handler raises.
  Under that proviso a failed decode or a failed MFCC or mel computation gives the error
  that names the extraction, and a failure of a model, of an arg-max, of the label encoder or
  of the print of a decision or of the label gives the error that carries the exception's
  text. A path to a file that does not exist fails the first decode and so gives an error
  result, when the line about it can be printed.
\<close>

theorem failures_become_errors:
  "(\<forall>e w'. analyze_audio_try env w file_path = (Inl (Exception e), w') \<and> handler_prints env e \<longrightarrow>
      analyze_audio env w file_path = (Inr (Error e), w')) \<and>
   (\<forall>x. fst (analyze_audio env w file_path) = Inl x \<longrightarrow>
      (\<exists>m. x = BaseException m \<and> fst (analyze_audio_try env w file_path) = Inl (BaseException m)) \<or>
      (\<exists>e. fst (analyze_audio_try env w file_path) = Inl (Exception e) \<and>
           print env (''[ERROR] analyze_audio(): '' @ e) = Inl x)) \<and>
   (\<forall>e. load env (n_loads w) file_path 22050 = Inl (Exception e) \<and> mfcc_handler_prints env e \<longrightarrow>
      fst (analyze_audio env w file_path) = Inr (Error ''Could not extract MFCC sequence.'')) \<and>
   (\<forall>y sr e. load env (n_loads w) file_path 22050 = Inr (y, sr) \<and>
      mfcc env y sr 13 = Inl (Exception e) \<and> mfcc_handler_prints env e \<longrightarrow>
      fst (analyze_audio env w file_path) = Inr (Error ''Could not extract MFCC sequence.'')) \<and>
   (\<forall>mfcc_seq. fst (extract_mfcc_sequence env w file_path 160) = Inr (Some mfcc_seq) \<longrightarrow>
      (\<forall>e. gender_model env (expand_dims mfcc_seq) = Inl (Exception e) \<and> handler_prints env e \<longrightarrow>
         fst (analyze_audio env w file_path) = Inr (Error e)) \<and>
      (\<forall>gender_pred e. gender_model env (expand_dims mfcc_seq) = Inr gender_pred \<and>
         argmax gender_pred = Inl (Exception e) \<and> handler_prints env e \<longrightarrow>
         fst (analyze_audio env w file_path) = Inr (Error e)) \<and>
      (\<forall>gender_pred g e. gender_model env (expand_dims mfcc_seq) = Inr gender_pred \<and>
         argmax gender_pred = Inr g \<and>
         print env (''[INFO] Gender: '' @ (if g = 1 then ''male'' else ''female'')) = Inl (Exception e) \<and>
         handler_prints env e \<longrightarrow>
         fst (analyze_audio env w file_path) = Inr (Error e)) \<and>
      (male_passed env (expand_dims mfcc_seq) \<longrightarrow>
         (\<forall>e. age_model env (expand_dims mfcc_seq) = Inl (Exception e) \<and> handler_prints env e \<longrightarrow>
            fst (analyze_audio env w file_path) = Inr (Error e)) \<and>
         (\<forall>age_pred e. age_model env (expand_dims mfcc_seq) = Inr age_pred \<and>
            argmax age_pred = Inl (Exception e) \<and> handler_prints env e \<longrightarrow>
            fst (analyze_audio env w file_path) = Inr (Error e)) \<and>
         (\<forall>age_pred a e. age_model env (expand_dims mfcc_seq) = Inr age_pred \<and>
            argmax age_pred = Inr a \<and>
            print env (''[INFO] Age Group: '' @ (if a = 1 then ''senior'' else ''non-senior''))
              = Inl (Exception e) \<and>
            handler_prints env e \<longrightarrow>
            fst (analyze_audio env w file_path) = Inr (Error e)) \<and>
         (senior_passed env (expand_dims mfcc_seq) \<longrightarrow>
            (\<forall>e. load env (Suc (n_loads w)) file_path 22050 = Inl (Exception e) \<and>
               mel_handler_prints env e \<longrightarrow>
               fst (analyze_audio env w file_path) = Inr (Error ''Could not extract Mel features.'')) \<and>
            (\<forall>y sr e. load env (Suc (n_loads w)) file_path 22050 = Inr (y, sr) \<and>
               melspectrogram env y sr 128 = Inl (Exception e) \<and> mel_handler_prints env e \<longrightarrow>
               fst (analyze_audio env w file_path) = Inr (Error ''Could not extract Mel features.'')) \<and>
            (\<forall>y sr mel e. load env (Suc (n_loads w)) file_path 22050 = Inr (y, sr) \<and>
               melspectrogram env y sr 128 = Inr mel \<and> power_to_db mel = Inl (Exception e) \<and>
               mel_handler_prints env e \<longrightarrow>
               fst (analyze_audio env w file_path) = Inr (Error ''Could not extract Mel features.'')) \<and>
            (\<forall>mel_feat.
               fst (extract_mel_features env
                      (w @ [Extract_mfcc file_path, Load file_path,
                            Gender_predict (expand_dims mfcc_seq),
                            Age_predict (expand_dims mfcc_seq)]) file_path 160)
                 = Inr (Some mel_feat) \<longrightarrow>
               (\<forall>e. emotion_model env (expand_dims mel_feat) = Inl (Exception e) \<and>
                  handler_prints env e \<longrightarrow>
                  fst (analyze_audio env w file_path) = Inr (Error e)) \<and>
               (\<forall>emotion_pred. emotion_model env (expand_dims mel_feat) = Inr emotion_pred \<longrightarrow>
                  (\<forall>e. argmax emotion_pred = Inl (Exception e) \<and> handler_prints env e \<longrightarrow>
                     fst (analyze_audio env w file_path) = Inr (Error e)) \<and>
                  (\<forall>k. argmax emotion_pred = Inr k \<longrightarrow>
                     (\<forall>e. emotion_encoder env [k] = Inl (Exception e) \<and> handler_prints env e \<longrightarrow>
                        fst (analyze_audio env w file_path) = Inr (Error e)) \<and>
                     (emotion_encoder env [k] = Inr [] \<and>
                      handler_prints env ''index 0 is out of bounds for axis 0 with size 0'' \<longrightarrow>
                        fst (analyze_audio env w file_path) =
                          Inr (Error ''index 0 is out of bounds for axis 0 with size 0'')) \<and>
                     (\<forall>emotion_label rest e.
                        emotion_encoder env [k] = Inr (emotion_label # rest) \<and>
                        print env (''[INFO] Emotion: '' @ emotion_label) = Inl (Exception e) \<and>
                        handler_prints env e \<longrightarrow>
                        fst (analyze_audio env w file_path) = Inr (Error e))))))))"
proof -
  let ?R = "fst (analyze_audio env w file_path)"
  have boundary: "analyze_audio env w file_path = (Inr (Error e), w')"
    if "analyze_audio_try env w file_path = (Inl (Exception e), w')" "handler_prints env e" for e w'
    using that by (simp add: analyze_audio_on_except on_except_simps)
  have escapes: "(\<exists>m. x = BaseException m \<and> fst (analyze_audio_try env w file_path) = Inl (BaseException m)) \<or>
      (\<exists>e. fst (analyze_audio_try env w file_path) = Inl (Exception e) \<and>
           print env (''[ERROR] analyze_audio(): '' @ e) = Inl x)"
    if "?R = Inl x" for x
    by (rule analyze_audio_escapes[OF that])
  have mfcc_none: "?R = Inr (Error ''Could not extract MFCC sequence.'')"
    if "mfcc_handler_prints env e"
       "load env (n_loads w) file_path 22050 = Inl (Exception e) \<or>
        (\<exists>y sr. load env (n_loads w) file_path 22050 = Inr (y, sr) \<and> mfcc env y sr 13 = Inl (Exception e))"
    for e
  proof -
    have "fst (extract_mfcc_sequence env w file_path 160) = Inr None"
      unfolding extract_mfcc_sequence_None using that by blast
    then show ?thesis by (rule analyze_audio_mfcc_failed)
  qed
  have rest: "(\<forall>e. gender_model env (expand_dims mfcc_seq) = Inl (Exception e) \<and> handler_prints env e \<longrightarrow>
         ?R = Inr (Error e)) \<and>
      (\<forall>gender_pred e. gender_model env (expand_dims mfcc_seq) = Inr gender_pred \<and>
         argmax gender_pred = Inl (Exception e) \<and> handler_prints env e \<longrightarrow> ?R = Inr (Error e)) \<and>
      (\<forall>gender_pred g e. gender_model env (expand_dims mfcc_seq) = Inr gender_pred \<and>
         argmax gender_pred = Inr g \<and>
         print env (''[INFO] Gender: '' @ (if g = 1 then ''male'' else ''female'')) = Inl (Exception e) \<and>
         handler_prints env e \<longrightarrow> ?R = Inr (Error e)) \<and>
      (male_passed env (expand_dims mfcc_seq) \<longrightarrow>
         (\<forall>e. age_model env (expand_dims mfcc_seq) = Inl (Exception e) \<and> handler_prints env e \<longrightarrow>
            ?R = Inr (Error e)) \<and>
         (\<forall>age_pred e. age_model env (expand_dims mfcc_seq) = Inr age_pred \<and>
            argmax age_pred = Inl (Exception e) \<and> handler_prints env e \<longrightarrow> ?R = Inr (Error e)) \<and>
         (\<forall>age_pred a e. age_model env (expand_dims mfcc_seq) = Inr age_pred \<and>
            argmax age_pred = Inr a \<and>
            print env (''[INFO] Age Group: '' @ (if a = 1 then ''senior'' else ''non-senior''))
              = Inl (Exception e) \<and>
            handler_prints env e \<longrightarrow> ?R = Inr (Error e)) \<and>
         (senior_passed env (expand_dims mfcc_seq) \<longrightarrow>
            (\<forall>e. load env (Suc (n_loads w)) file_path 22050 = Inl (Exception e) \<and>
               mel_handler_prints env e \<longrightarrow>
               ?R = Inr (Error ''Could not extract Mel features.'')) \<and>
            (\<forall>y sr e. load env (Suc (n_loads w)) file_path 22050 = Inr (y, sr) \<and>
               melspectrogram env y sr 128 = Inl (Exception e) \<and> mel_handler_prints env e \<longrightarrow>
               ?R = Inr (Error ''Could not extract Mel features.'')) \<and>
            (\<forall>y sr mel e. load env (Suc (n_loads w)) file_path 22050 = Inr (y, sr) \<and>
               melspectrogram env y sr 128 = Inr mel \<and> power_to_db mel = Inl (Exception e) \<and>
               mel_handler_prints env e \<longrightarrow>
               ?R = Inr (Error ''Could not extract Mel features.'')) \<and>
            (\<forall>mel_feat.
               fst (extract_mel_features env
                      (w @ [Extract_mfcc file_path, Load file_path,
                            Gender_predict (expand_dims mfcc_seq),
                            Age_predict (expand_dims mfcc_seq)]) file_path 160)
                 = Inr (Some mel_feat) \<longrightarrow>
               (\<forall>e. emotion_model env (expand_dims mel_feat) = Inl (Exception e) \<and>
                  handler_prints env e \<longrightarrow> ?R = Inr (Error e)) \<and>
               (\<forall>emotion_pred. emotion_model env (expand_dims mel_feat) = Inr emotion_pred \<longrightarrow>
                  (\<forall>e. argmax emotion_pred = Inl (Exception e) \<and> handler_prints env e \<longrightarrow>
                     ?R = Inr (Error e)) \<and>
                  (\<forall>k. argmax emotion_pred = Inr k \<longrightarrow>
                     (\<forall>e. emotion_encoder env [k] = Inl (Exception e) \<and> handler_prints env e \<longrightarrow>
                        ?R = Inr (Error e)) \<and>
                     (emotion_encoder env [k] = Inr [] \<and>
                      handler_prints env ''index 0 is out of bounds for axis 0 with size 0'' \<longrightarrow>
                        ?R = Inr (Error ''index 0 is out of bounds for axis 0 with size 0'')) \<and>
                     (\<forall>emotion_label rest e.
                        emotion_encoder env [k] = Inr (emotion_label # rest) \<and>
                        print env (''[INFO] Emotion: '' @ emotion_label) = Inl (Exception e) \<and>
                        handler_prints env e \<longrightarrow>
                        ?R = Inr (Error e)))))))"
    if ex: "fst (extract_mfcc_sequence env w file_path 160) = Inr (Some mfcc_seq)" for mfcc_seq
  proof -
    let ?X = "expand_dims mfcc_seq"
    let ?w3 = "w @ [Extract_mfcc file_path, Load file_path, Gender_predict ?X, Age_predict ?X]"
    have n3: "n_loads ?w3 = Suc (n_loads w)"
      by (simp add: n_loads_def)
    have gender: "?R = Inr (Error e)"
      if "gender_model env ?X = Inl (Exception e) \<or>
          (\<exists>gender_pred. gender_model env ?X = Inr gender_pred \<and>
             (argmax gender_pred = Inl (Exception e) \<or>
              (\<exists>g. argmax gender_pred = Inr g \<and>
                 print env (''[INFO] Gender: '' @ (if g = 1 then ''male'' else ''female''))
                   = Inl (Exception e))))"
         "handler_prints env e" for e
      by (rule analyze_audio_gender_failed[OF ex that])
    have age: "?R = Inr (Error e)"
      if "male_passed env ?X"
         "age_model env ?X = Inl (Exception e) \<or>
          (\<exists>age_pred. age_model env ?X = Inr age_pred \<and>
             (argmax age_pred = Inl (Exception e) \<or>
              (\<exists>a. argmax age_pred = Inr a \<and>
                 print env (''[INFO] Age Group: '' @ (if a = 1 then ''senior'' else ''non-senior''))
                   = Inl (Exception e))))"
         "handler_prints env e" for e
      by (rule analyze_audio_age_failed[OF ex that])
    have mel: "?R = Inr (Error ''Could not extract Mel features.'')"
      if "male_passed env ?X" "senior_passed env ?X" "mel_handler_prints env e"
         "load env (Suc (n_loads w)) file_path 22050 = Inl (Exception e) \<or>
          (\<exists>y sr. load env (Suc (n_loads w)) file_path 22050 = Inr (y, sr) \<and>
             melspectrogram env y sr 128 = Inl (Exception e)) \<or>
          (\<exists>y sr mel. load env (Suc (n_loads w)) file_path 22050 = Inr (y, sr) \<and>
             melspectrogram env y sr 128 = Inr mel \<and> power_to_db mel = Inl (Exception e))"
      for e
    proof -
      have "fst (extract_mel_features env ?w3 file_path 160) = Inr None"
        unfolding extract_mel_features_None n3 using that(3,4) by blast
      from analyze_audio_mel_failed[OF ex that(1,2) this] show ?thesis .
    qed
    have emotion: "?R = Inr (Error e)"
      if "male_passed env ?X" "senior_passed env ?X"
         "fst (extract_mel_features env ?w3 file_path 160) = Inr (Some mel_feat)"
         "emotion_model env (expand_dims mel_feat) = Inl (Exception e) \<or>
           (\<exists>emotion_pred. emotion_model env (expand_dims mel_feat) = Inr emotion_pred \<and>
              (argmax emotion_pred = Inl (Exception e) \<or>
               (\<exists>k. argmax emotion_pred = Inr k \<and>
                  (emotion_encoder env [k] = Inl (Exception e) \<or>
                   emotion_encoder env [k] = Inr [] \<and>
                     e = ''index 0 is out of bounds for axis 0 with size 0'' \<or>
                   (\<exists>emotion_label rest. emotion_encoder env [k] = Inr (emotion_label # rest) \<and>
                      print env (''[INFO] Emotion: '' @ emotion_label) = Inl (Exception e))))))"
         "handler_prints env e"
      for mel_feat e
      by (rule analyze_audio_emotion_failed[OF ex that])
    show ?thesis
      apply (intro conjI allI impI)
      subgoal using gender by blast
      subgoal using gender by blast
      subgoal using gender by blast
      subgoal using age by blast
      subgoal using age by blast
      subgoal using age by blast
      subgoal using mel by blast
      subgoal using mel by blast
      subgoal using mel by blast
      subgoal using emotion by blast
      subgoal using emotion by blast
      subgoal using emotion by blast
      subgoal for mel_feat emotion_pred k
        using emotion[of mel_feat "''index 0 is out of bounds for axis 0 with size 0''"] by blast
      subgoal using emotion by blast
      done
  qed
  from boundary escapes mfcc_none rest show ?thesis by blast
qed

theorem failures_become_errors_witness:
  "load demo_env 0 ''missing.wav'' 22050 = Inl (Exception ''No such file or directory'') \<and>
   mfcc_handler_prints demo_env ''No such file or directory'' \<and>
   fst (analyze_audio demo_env [] ''missing.wav'') = Inr (Error ''Could not extract MFCC sequence.'') \<and>
   fst (analyze_audio vanished_env [] ''a.wav'') = Inr (Error ''Could not extract Mel features.'')"
proof -
  have p1: "mfcc_handler_prints demo_env ''No such file or directory''"
    by (simp add: mfcc_handler_prints_def demo_env_simps)
  have p2: "mel_handler_prints vanished_env ''No such file or directory''"
    by (simp add: mel_handler_prints_def print_always)
  have "fst (analyze_audio demo_env [] ''missing.wav'') = Inr (Error ''Could not extract MFCC sequence.'')"
    using failures_become_errors[of demo_env "[]" "''missing.wav''"] p1
    by (simp add: demo_env_simps n_loads_simps)
  moreover have "fst (extract_mfcc_sequence vanished_env [] ''a.wav'' 160) = Inr (Some demo_mfcc_seq)"
    by (simp add: extract_demo_mfcc_seq vanished_env_simps n_loads_simps)
  then have "fst (analyze_audio vanished_env [] ''a.wav'') = Inr (Error ''Could not extract Mel features.'')"
    using failures_become_errors[of vanished_env "[]" "''a.wav''"] p2
    by (simp add: vanished_env_simps passed_examples n_loads_simps)
  ultimately show ?thesis using p1 by (simp add: demo_env_simps)
qed






end
